theory Spec2Isabelle
  imports Complex_Main "HOL-Library.Product_Lexorder" "HOL-Library.Multiset"
begin

section \<open>Club meeting scheduler: the request handlers of app.py over the schema of models.py\<close>

text \<open>
  The program is a Flask application over an SQLite store. Each handler is embedded as a
  function of the request data, of the clock reading (\<open>datetime.now()\<close>, a parameter)
  and of the stored meetings, returning the response and the stored meetings afterwards.
  An exception that leaves a handler is the response \<open>Server_error\<close>; \<open>get_or_404\<close>
  not finding the row is the response \<open>Abort404\<close>. In both cases nothing is
  committed. A Python \<open>str\<close> is the list of its code points, for code points below
  256.
\<close>

subsection \<open>Values of the Python runtime\<close>

datatype exn = ValueError | TypeError | IntegrityError | OverflowError | ZeroDivisionError

text \<open>
  \<open>datetime.date\<close> is (year, month, day), \<open>datetime.time\<close> is (hour, minute, second,
  microsecond), a naive \<open>datetime\<close> is the pair of both. Python compares each of them
  field by field from the left, which is the lexicographic order on the tuples.
\<close>

type_synonym dt_date = "nat \<times> nat \<times> nat"
type_synonym dt_time = "nat \<times> nat \<times> nat \<times> nat"
type_synonym datetime = "dt_date \<times> dt_time"

definition combine :: "dt_date \<Rightarrow> dt_time \<Rightarrow> datetime" where
  "combine d t = (d, t)"

subsection \<open>Standard library functions the handlers call\<close>

text \<open>The value of an ASCII digit, by its code point (48 to 57).\<close>

definition digit_of :: "char \<Rightarrow> nat option" where
  "digit_of c =
     (let n = (of_char c :: nat)
      in if 48 \<le> n \<and> n \<le> 57 then Some (n - 48) else None)"

text \<open>
  The blanks \<open>int\<close> skips around a literal: the six of C's \<open>isspace\<close>, and the
  two Unicode blanks below 256 (U+0085 and U+00A0), which it first turns into a space.
  The separators 0x1C to 0x1F are not among them.
\<close>

definition is_space :: "char \<Rightarrow> bool" where
  "is_space c \<longleftrightarrow> c \<in> set [CHR '' '', CHR 0x09, CHR 0x0A, CHR 0x0B, CHR 0x0C, CHR 0x0D,
                            CHR 0x85, CHR 0xA0]"

definition strip :: "string \<Rightarrow> string" where
  "strip s = rev (dropWhile is_space (rev (dropWhile is_space s)))"

text \<open>
  The digits of a decimal literal: at least one digit, single underscores allowed between
  two digits only.
\<close>

fun literal_digits :: "string \<Rightarrow> nat list option" where
  "literal_digits [] = None"
| "literal_digits (c # cs) =
     (case digit_of c of
        None \<Rightarrow> None
      | Some d \<Rightarrow>
          (case cs of
             [] \<Rightarrow> Some [d]
           | c' # cs' \<Rightarrow>
               map_option (Cons d)
                 (if c' = CHR ''_'' then literal_digits cs' else literal_digits cs)))"

definition decimal_value :: "nat list \<Rightarrow> nat" where
  "decimal_value ds = fold (\<lambda>d acc. 10 * acc + d) ds 0"

definition int_max_str_digits :: nat where
  "int_max_str_digits = 4300"

text \<open>
  \<open>int(s)\<close> for a string: surrounding whitespace is dropped, one sign is allowed, the
  rest is a decimal literal of at most \<open>int_max_str_digits\<close> digits. Anything else is a
  \<open>ValueError\<close>.
\<close>

definition py_int :: "string \<Rightarrow> exn + int" where
  "py_int s =
     (let u = strip s;
          (neg, body) =
            (case u of
               [] \<Rightarrow> (False, [])
             | c # cs \<Rightarrow>
                 if c = CHR ''-'' then (True, cs)
                 else if c = CHR ''+'' then (False, cs)
                 else (False, u))
      in case literal_digits body of
           None \<Rightarrow> Inl ValueError
         | Some ds \<Rightarrow>
             if length ds > int_max_str_digits then Inl ValueError
             else Inr (if neg then - int (decimal_value ds) else int (decimal_value ds)))"

text \<open>\<open>str.split(sep)\<close> with a one-character separator.\<close>

fun split_on :: "char \<Rightarrow> string \<Rightarrow> string list" where
  "split_on c [] = [] # []"
| "split_on c (x # xs) =
     (if x = c then [] # split_on c xs
      else (case split_on c xs of
              [] \<Rightarrow> [x] # []
            | w # ws \<Rightarrow> (x # w) # ws))"

text \<open>
  The directives of \<open>strptime\<close>. \<open>%Y\<close> is four digits; \<open>%m\<close>, \<open>%d\<close>, \<open>%H\<close>,
  \<open>%M\<close>, \<open>%S\<close> are one or two digits in the range of the field (\<open>%d\<close> also a blank
  and a digit). With the literal separators of the three formats used here, a string is
  accepted exactly when splitting it at the separator gives the fields, one each.
\<close>

definition num12 :: "string \<Rightarrow> nat option" where
  "num12 s =
     (case s of
        [a] \<Rightarrow> digit_of a
      | [a, b] \<Rightarrow>
          (case (digit_of a, digit_of b) of
             (Some x, Some y) \<Rightarrow> Some (10 * x + y)
           | _ \<Rightarrow> None)
      | _ \<Rightarrow> None)"

definition directive_Y :: "string \<Rightarrow> nat option" where
  "directive_Y s =
     (if length s = 4 then map_option decimal_value (those (map digit_of s)) else None)"

definition directive_m :: "string \<Rightarrow> nat option" where
  "directive_m s =
     (case num12 s of Some v \<Rightarrow> if 1 \<le> v \<and> v \<le> 12 then Some v else None | None \<Rightarrow> None)"

definition directive_d :: "string \<Rightarrow> nat option" where
  "directive_d s =
     (case s of
        [a, b] \<Rightarrow>
          (if a = CHR '' '' then
             (case digit_of b of Some v \<Rightarrow> if 1 \<le> v then Some v else None | None \<Rightarrow> None)
           else
             (case num12 s of
                Some v \<Rightarrow> if 1 \<le> v \<and> v \<le> 31 then Some v else None
              | None \<Rightarrow> None))
      | _ \<Rightarrow>
          (case num12 s of
             Some v \<Rightarrow> if 1 \<le> v \<and> v \<le> 31 then Some v else None
           | None \<Rightarrow> None))"

definition directive_H :: "string \<Rightarrow> nat option" where
  "directive_H s =
     (case num12 s of Some v \<Rightarrow> if v \<le> 23 then Some v else None | None \<Rightarrow> None)"

definition directive_M :: "string \<Rightarrow> nat option" where
  "directive_M s =
     (case num12 s of Some v \<Rightarrow> if v \<le> 59 then Some v else None | None \<Rightarrow> None)"

definition directive_S :: "string \<Rightarrow> nat option" where
  "directive_S s =
     (case num12 s of Some v \<Rightarrow> if v \<le> 61 then Some v else None | None \<Rightarrow> None)"

definition is_leap :: "nat \<Rightarrow> bool" where
  "is_leap y \<longleftrightarrow> y mod 4 = 0 \<and> (y mod 100 \<noteq> 0 \<or> y mod 400 = 0)"

definition days_in_month :: "nat \<Rightarrow> nat \<Rightarrow> nat" where
  "days_in_month y m =
     (if m = 2 then (if is_leap y then 29 else 28)
      else if m \<in> set [4, 6, 9, 11] then 30 else 31)"

text \<open>The constructor \<open>date(y, m, d)\<close> raises \<open>ValueError\<close> outside the calendar.\<close>

definition valid_date :: "nat \<Rightarrow> nat \<Rightarrow> nat \<Rightarrow> bool" where
  "valid_date y m d \<longleftrightarrow>
     1 \<le> y \<and> y \<le> 9999 \<and> 1 \<le> m \<and> m \<le> 12 \<and> 1 \<le> d \<and> d \<le> days_in_month y m"

text \<open>\<open>datetime.strptime(s, "%Y-%m-%d").date()\<close>\<close>

definition strptime_Ymd :: "string \<Rightarrow> exn + dt_date" where
  "strptime_Ymd s =
     (case split_on (CHR ''-'') s of
        [ys, ms, ds] \<Rightarrow>
          (case (directive_Y ys, directive_m ms, directive_d ds) of
             (Some y, Some m, Some d) \<Rightarrow>
               if valid_date y m d then Inr (y, m, d) else Inl ValueError
           | _ \<Rightarrow> Inl ValueError)
      | _ \<Rightarrow> Inl ValueError)"

text \<open>\<open>datetime.strptime(s, "%H:%M").time()\<close>\<close>

definition strptime_HM :: "string \<Rightarrow> exn + dt_time" where
  "strptime_HM s =
     (case split_on (CHR '':'') s of
        [hs, ms] \<Rightarrow>
          (case (directive_H hs, directive_M ms) of
             (Some h, Some m) \<Rightarrow> Inr (h, m, 0, 0)
           | _ \<Rightarrow> Inl ValueError)
      | _ \<Rightarrow> Inl ValueError)"

text \<open>
  \<open>datetime.strptime(s, "%H:%M:%S").time()\<close>: the directive lets 60 and 61 through,
  the \<open>datetime\<close> constructor then refuses a second above 59.
\<close>

definition strptime_HMS :: "string \<Rightarrow> exn + dt_time" where
  "strptime_HMS s =
     (case split_on (CHR '':'') s of
        [hs, ms, ss] \<Rightarrow>
          (case (directive_H hs, directive_M ms, directive_S ss) of
             (Some h, Some m, Some sec) \<Rightarrow>
               if sec \<le> 59 then Inr (h, m, sec, 0) else Inl ValueError
           | _ \<Rightarrow> Inl ValueError)
      | _ \<Rightarrow> Inl ValueError)"

subsection \<open>Helpers of app.py\<close>

text \<open>
  A form or query field is \<open>None\<close> when the request does not carry it. \<open>if s\<close> on such
  a value is false for \<open>None\<close> and for the empty string.
\<close>

definition truthy_str :: "string option \<Rightarrow> bool" where
  "truthy_str s = (case s of None \<Rightarrow> False | Some x \<Rightarrow> x \<noteq> [])"

definition parse_date :: "string option \<Rightarrow> exn + dt_date option" where
  "parse_date s =
     (case s of
        None \<Rightarrow> Inr None
      | Some x \<Rightarrow>
          if x = [] then Inr None
          else (case strptime_Ymd x of Inl e \<Rightarrow> Inl e | Inr d \<Rightarrow> Inr (Some d)))"

definition parse_time :: "string option \<Rightarrow> dt_time option" where
  "parse_time s =
     (case s of
        None \<Rightarrow> None
      | Some x \<Rightarrow>
          if x = [] then None
          else (case strptime_HM x of
                  Inr t \<Rightarrow> Some t
                | Inl _ \<Rightarrow>
                    (case strptime_HMS x of
                       Inr t \<Rightarrow> Some t
                     | Inl _ \<Rightarrow> None)))"

text \<open>
  \<open>not d\<close> and \<open>not t\<close> hold only for \<open>None\<close>: date and time objects are always true
  (for times since Python 3.5).
\<close>

definition reject_if_past :: "datetime \<Rightarrow> dt_date option \<Rightarrow> dt_time option \<Rightarrow> bool" where
  "reject_if_past now d t =
     (case d of
        None \<Rightarrow> False
      | Some d' \<Rightarrow>
          (case t of
             None \<Rightarrow> False
           | Some t' \<Rightarrow> combine d' t' < now))"

subsection \<open>The schema of models.py and the store\<close>

text \<open>
  A stored row of the table \<open>meetings\<close>. The columns \<open>date\<close>, \<open>start_time\<close>,
  \<open>duration_minutes\<close>, \<open>club_id\<close> and \<open>room_id\<close> are declared \<open>nullable=False\<close>, so a
  stored row always has them. Every row this program writes carries integer counts (the
  handlers pass \<open>max(0, int(...))\<close>, the seed rows literals), so the counts of a stored
  row are integers too.
\<close>

record meeting =
  meeting_id :: int
  date :: dt_date
  start_time :: dt_time
  duration_minutes :: int
  description :: "string option"
  club_id :: int
  room_id :: int
  invited_count :: int
  accepted_count :: int

text \<open>
  The \<open>Meeting\<close> object in the session before the commit: the attributes the handler has
  set. \<open>m_date\<close> and \<open>m_start_time\<close> are what \<open>parse_date\<close> and \<open>parse_time\<close> gave,
  possibly \<open>None\<close>.
\<close>

record Meeting =
  m_date :: "dt_date option"
  m_start_time :: "dt_time option"
  m_duration_minutes :: int
  m_description :: "string option"
  m_club_id :: int
  m_room_id :: int
  m_invited_count :: int
  m_accepted_count :: int

type_synonym store = "meeting list"

text \<open>An SQLite \<open>INTEGER\<close> holds 64 signed bits; the driver refuses a larger Python int.\<close>

definition fits_int64 :: "int \<Rightarrow> bool" where
  "fits_int64 x \<longleftrightarrow> - (2 ^ 63) \<le> x \<and> x < 2 ^ 63"

text \<open>
  Writing the object as the row with primary key \<open>i\<close>: the parameters are bound first
  (\<open>OverflowError\<close>), then the statement runs and SQLite checks \<open>NOT NULL\<close>
  (\<open>IntegrityError\<close>). Foreign keys are not checked: the application never switches
  SQLite's enforcement on.
\<close>

definition flush_row :: "int \<Rightarrow> Meeting \<Rightarrow> exn + meeting" where
  "flush_row i m =
     (if \<not> (fits_int64 (m_duration_minutes m) \<and> fits_int64 (m_club_id m) \<and>
             fits_int64 (m_room_id m) \<and> fits_int64 (m_invited_count m) \<and>
             fits_int64 (m_accepted_count m))
      then Inl OverflowError
      else (case m_date m of
              None \<Rightarrow> Inl IntegrityError
            | Some d \<Rightarrow>
                (case m_start_time m of
                   None \<Rightarrow> Inl IntegrityError
                 | Some t \<Rightarrow>
                     Inr \<lparr>meeting_id = i, date = d, start_time = t,
                          duration_minutes = m_duration_minutes m,
                          description = m_description m,
                          club_id = m_club_id m, room_id = m_room_id m,
                          invited_count = m_invited_count m,
                          accepted_count = m_accepted_count m\<rparr>)))"

text \<open>The key SQLite gives a new row: 1 in an empty table, else the largest key plus 1.\<close>

definition next_id :: "store \<Rightarrow> int" where
  "next_id db =
     (case db of
        [] \<Rightarrow> 1
      | r # rs \<Rightarrow> fold max (map meeting_id rs) (meeting_id r) + 1)"

text \<open>\<open>db.session.add(m); db.session.commit()\<close>\<close>

definition add_commit :: "store \<Rightarrow> Meeting \<Rightarrow> exn + store" where
  "add_commit db m =
     (case flush_row (next_id db) m of
        Inl e \<Rightarrow> Inl e
      | Inr r \<Rightarrow> Inr (db @ [r]))"

text \<open>\<open>db.session.commit()\<close> after the attributes of the loaded row \<open>i\<close> were set.\<close>

definition update_commit :: "store \<Rightarrow> int \<Rightarrow> Meeting \<Rightarrow> exn + store" where
  "update_commit db i m =
     (case flush_row i m of
        Inl e \<Rightarrow> Inl e
      | Inr r \<Rightarrow> Inr (map (\<lambda>x. if meeting_id x = i then r else x) db))"

text \<open>\<open>db.session.delete(m); db.session.commit()\<close> for the loaded row \<open>i\<close>.\<close>

definition delete_commit :: "store \<Rightarrow> int \<Rightarrow> store" where
  "delete_commit db i = filter (\<lambda>x. meeting_id x \<noteq> i) db"

text \<open>
  \<open>Meeting.query.get_or_404(meeting_id)\<close>: the key is bound as a query parameter
  (\<open>OverflowError\<close> outside 64 bits), then the row with that key is looked up.
  \<open>Inr None\<close> is the abort with 404.
\<close>

definition get_or_404 :: "store \<Rightarrow> int \<Rightarrow> exn + meeting option" where
  "get_or_404 db i =
     (if fits_int64 i then Inr (find (\<lambda>x. meeting_id x = i) db) else Inl OverflowError)"

text \<open>
  \<open>order_by\<close> on the columns (date, start_time), compared from the left. SQL leaves
  the order of rows with equal keys open; SQLite returns them in table order, in both
  directions, and so do these two sorts.
\<close>

definition sort_cols :: "meeting \<Rightarrow> dt_date \<times> dt_time" where
  "sort_cols m = (date m, start_time m)"

definition order_by_asc :: "meeting list \<Rightarrow> meeting list" where
  "order_by_asc xs = sort_key sort_cols xs"

definition order_by_desc :: "meeting list \<Rightarrow> meeting list" where
  "order_by_desc xs = rev (sort_key sort_cols (rev xs))"

subsection \<open>Responses\<close>

datatype endpoint = Meetings_list | Meetings_new | Meetings_edit int

text \<open>
  The floats of the report. Floating-point arithmetic is not evaluated: a float is the
  expression the handler computes it with, \<open>Int_div a b\<close> the quotient \<open>a / b\<close> of two
  ints, \<open>Float_sum xs\<close> the \<open>sum\<close> of a non-empty list of floats, \<open>Float_div x n\<close>
  a float divided by an int, \<open>Float_round x k\<close> the call \<open>round(x, k)\<close>. A number
  handed to the template is such a float, or the int \<open>0\<close> of an empty average.
\<close>

datatype float_expr =
    Int_div int int
  | Float_sum "float_expr list"
  | Float_div float_expr int
  | Float_round float_expr nat

datatype number = PyInt int | PyFloat float_expr

record report_stats =
  avg_duration :: number
  avg_invited :: number
  avg_accepted :: number
  avg_attendance_rate :: number

record report_view =
  rows :: "meeting list"
  filter_club_id :: "int option"
  filter_room_id :: "int option"
  filter_date_from :: "string option"
  filter_date_to :: "string option"
  stats :: report_stats

text \<open>
  \<open>Redirect e msg\<close> is \<open>redirect(url_for(e))\<close> after \<open>flash(msg)\<close>; the \<open>Render\<close>
  responses carry what the handler hands to the template (the club and room choices
  left out).
\<close>

datatype response =
    Redirect endpoint string
  | Render_list "meeting list"
  | Render_form "meeting option"
  | Render_report report_view
  | Abort404
  | Server_error exn

type_synonym form = "string \<Rightarrow> string option"

text \<open>\<open>int(request.form.get(k) or 0)\<close>\<close>

definition int_or_0 :: "string option \<Rightarrow> exn + int" where
  "int_or_0 s = (if truthy_str s then (case s of Some x \<Rightarrow> py_int x | None \<Rightarrow> Inr 0) else Inr 0)"

text \<open>\<open>int(request.form.get(k))\<close>: \<open>int(None)\<close> is a \<open>TypeError\<close>.\<close>

definition int_req :: "string option \<Rightarrow> exn + int" where
  "int_req s = (case s of None \<Rightarrow> Inl TypeError | Some x \<Rightarrow> py_int x)"

text \<open>
  \<open>request.args.get(k, type=int)\<close>: a missing key gives \<open>None\<close>, and so does a value
  on which \<open>int\<close> raises.
\<close>

definition args_get_int :: "string option \<Rightarrow> int option" where
  "args_get_int s =
     (case s of
        None \<Rightarrow> None
      | Some x \<Rightarrow> (case py_int x of Inl _ \<Rightarrow> None | Inr v \<Rightarrow> Some v))"

subsection \<open>Meeting handlers\<close>

definition meetings_list :: "store \<Rightarrow> response" where
  "meetings_list db = Render_list (order_by_desc db)"

definition meetings_new :: "store \<Rightarrow> response" where
  "meetings_new db = Render_form None"

definition meetings_create :: "datetime \<Rightarrow> form \<Rightarrow> store \<Rightarrow> response \<times> store" where
  "meetings_create now form db =
     (case parse_date (form ''date'') of
        Inl e \<Rightarrow> (Server_error e, db)
      | Inr d \<Rightarrow>
     (let t = parse_time (form ''start_time'') in
      if reject_if_past now d t
      then (Redirect Meetings_new ''Cannot schedule a meeting in the past!'', db)
      else
     (case int_or_0 (form ''invited_count'') of
        Inl e \<Rightarrow> (Server_error e, db)
      | Inr invited \<Rightarrow>
     (case int_or_0 (form ''accepted_count'') of
        Inl e \<Rightarrow> (Server_error e, db)
      | Inr accepted \<Rightarrow>
     (case int_or_0 (form ''duration_minutes'') of
        Inl e \<Rightarrow> (Server_error e, db)
      | Inr duration \<Rightarrow>
     (case int_req (form ''club_id'') of
        Inl e \<Rightarrow> (Server_error e, db)
      | Inr club \<Rightarrow>
     (case int_req (form ''room_id'') of
        Inl e \<Rightarrow> (Server_error e, db)
      | Inr room \<Rightarrow>
     (case add_commit db
             \<lparr>m_date = d, m_start_time = t, m_duration_minutes = duration,
              m_description = form ''description'', m_club_id = club, m_room_id = room,
              m_invited_count = max 0 invited, m_accepted_count = max 0 accepted\<rparr> of
        Inl e \<Rightarrow> (Server_error e, db)
      | Inr db' \<Rightarrow> (Redirect Meetings_list ''Meeting created!'', db')))))))))"

definition meetings_edit :: "int \<Rightarrow> store \<Rightarrow> response" where
  "meetings_edit i db =
     (case get_or_404 db i of
        Inl e \<Rightarrow> Server_error e
      | Inr None \<Rightarrow> Abort404
      | Inr (Some m) \<Rightarrow> Render_form (Some m))"

definition meetings_update :: "datetime \<Rightarrow> int \<Rightarrow> form \<Rightarrow> store \<Rightarrow> response \<times> store" where
  "meetings_update now i form db =
     (case get_or_404 db i of
        Inl e \<Rightarrow> (Server_error e, db)
      | Inr None \<Rightarrow> (Abort404, db)
      | Inr (Some m) \<Rightarrow>
     (case parse_date (form ''date'') of
        Inl e \<Rightarrow> (Server_error e, db)
      | Inr d \<Rightarrow>
     (let t = parse_time (form ''start_time'') in
      if reject_if_past now d t
      then (Redirect (Meetings_edit i) ''Cannot schedule a meeting in the past!'', db)
      else
     (case int_or_0 (form ''duration_minutes'') of
        Inl e \<Rightarrow> (Server_error e, db)
      | Inr duration \<Rightarrow>
     (case int_req (form ''club_id'') of
        Inl e \<Rightarrow> (Server_error e, db)
      | Inr club \<Rightarrow>
     (case int_req (form ''room_id'') of
        Inl e \<Rightarrow> (Server_error e, db)
      | Inr room \<Rightarrow>
     (case int_or_0 (form ''invited_count'') of
        Inl e \<Rightarrow> (Server_error e, db)
      | Inr invited \<Rightarrow>
     (case int_or_0 (form ''accepted_count'') of
        Inl e \<Rightarrow> (Server_error e, db)
      | Inr accepted \<Rightarrow>
     (case update_commit db i
             \<lparr>m_date = d, m_start_time = t, m_duration_minutes = duration,
              m_description = form ''description'', m_club_id = club, m_room_id = room,
              m_invited_count = max 0 invited, m_accepted_count = max 0 accepted\<rparr> of
        Inl e \<Rightarrow> (Server_error e, db)
      | Inr db' \<Rightarrow> (Redirect Meetings_list ''Meeting updated!'', db'))))))))))"

definition meetings_delete :: "int \<Rightarrow> store \<Rightarrow> response \<times> store" where
  "meetings_delete i db =
     (case get_or_404 db i of
        Inl e \<Rightarrow> (Server_error e, db)
      | Inr None \<Rightarrow> (Abort404, db)
      | Inr (Some m) \<Rightarrow> (Redirect Meetings_list ''Meeting deleted!'', delete_commit db i))"

subsection \<open>Report handler\<close>

text \<open>
  Python's \<open>/\<close> raises \<open>ZeroDivisionError\<close> for a zero divisor; otherwise an int
  divided by an int is a float.
\<close>

definition truediv :: "int \<Rightarrow> int \<Rightarrow> exn + float_expr" where
  "truediv a b = (if b = 0 then Inl ZeroDivisionError else Inr (Int_div a b))"

text \<open>\<open>(sum(col(m) for m in rows)/n) if n else 0\<close>\<close>

definition avg_col :: "(meeting \<Rightarrow> int) \<Rightarrow> meeting list \<Rightarrow> exn + number" where
  "avg_col col xs =
     (let n = int (length xs)
      in if n \<noteq> 0
         then (case truediv (sum_list (map col xs)) n of
                 Inl e \<Rightarrow> Inl e
               | Inr x \<Rightarrow> Inr (PyFloat x))
         else Inr (PyInt 0))"

text \<open>\<open>[(m.accepted_count/m.invited_count) for m in rows if m.invited_count]\<close>\<close>

fun rates_of :: "meeting list \<Rightarrow> exn + float_expr list" where
  "rates_of [] = Inr []"
| "rates_of (m # ms) =
     (if invited_count m \<noteq> 0
      then (case truediv (accepted_count m) (invited_count m) of
              Inl e \<Rightarrow> Inl e
            | Inr r \<Rightarrow> (case rates_of ms of Inl e \<Rightarrow> Inl e | Inr rs \<Rightarrow> Inr (r # rs)))
      else rates_of ms)"

text \<open>
  \<open>(sum(rates)/len(rates)) if rates else 0\<close>: the sum of a non-empty list of floats
  is a float, divided by an int.
\<close>

definition avg_rates :: "float_expr list \<Rightarrow> exn + number" where
  "avg_rates rates =
     (if rates \<noteq> []
      then (if int (length rates) = 0 then Inl ZeroDivisionError
            else Inr (PyFloat (Float_div (Float_sum rates) (int (length rates)))))
      else Inr (PyInt 0))"

text \<open>\<open>round(x, ndigits)\<close>: an int stays as it is, a float is rounded.\<close>

definition py_round :: "number \<Rightarrow> nat \<Rightarrow> number" where
  "py_round x ndigits =
     (case x of PyInt i \<Rightarrow> PyInt i | PyFloat y \<Rightarrow> PyFloat (Float_round y ndigits))"

text \<open>
  The parameter a filter \<open>Meeting.club_id == club_id\<close> binds, if \<open>if club_id:\<close> adds
  the filter at all.
\<close>

definition bound_id :: "int option \<Rightarrow> int list" where
  "bound_id p = (case p of None \<Rightarrow> [] | Some c \<Rightarrow> if c \<noteq> 0 then [c] else [])"

text \<open>
  The query of the report: the filters are added one by one, and \<open>.all()\<close> runs the
  query. Running it binds the ids (\<open>OverflowError\<close> outside 64 bits).
\<close>

definition report_query ::
  "int option \<Rightarrow> int option \<Rightarrow> dt_date option \<Rightarrow> dt_date option \<Rightarrow> store
     \<Rightarrow> exn + meeting list" where
  "report_query cid rid date_from date_to db =
     (let q = db;
          q = (case cid of
                 None \<Rightarrow> q
               | Some c \<Rightarrow> if c \<noteq> 0 then filter (\<lambda>m. club_id m = c) q else q);
          q = (case rid of
                 None \<Rightarrow> q
               | Some r \<Rightarrow> if r \<noteq> 0 then filter (\<lambda>m. room_id m = r) q else q);
          q = (case date_from of
                 None \<Rightarrow> q
               | Some f \<Rightarrow> filter (\<lambda>m. date m \<ge> f) q);
          q = (case date_to of
                 None \<Rightarrow> q
               | Some u \<Rightarrow> filter (\<lambda>m. date m \<le> u) q)
      in if list_all fits_int64 (bound_id cid @ bound_id rid)
         then Inr (order_by_asc q)
         else Inl OverflowError)"

definition report :: "form \<Rightarrow> store \<Rightarrow> response" where
  "report args db =
     (let cid = args_get_int (args ''club_id'');
          rid = args_get_int (args ''room_id'');
          date_from_s = args ''date_from'';
          date_to_s = args ''date_to''
      in
     (case (if truthy_str date_from_s then parse_date date_from_s else Inr None) of
        Inl e \<Rightarrow> Server_error e
      | Inr date_from \<Rightarrow>
     (case (if truthy_str date_to_s then parse_date date_to_s else Inr None) of
        Inl e \<Rightarrow> Server_error e
      | Inr date_to \<Rightarrow>
     (case report_query cid rid date_from date_to db of
        Inl e \<Rightarrow> Server_error e
      | Inr rws \<Rightarrow>
     (case avg_col duration_minutes rws of
        Inl e \<Rightarrow> Server_error e
      | Inr a_duration \<Rightarrow>
     (case avg_col invited_count rws of
        Inl e \<Rightarrow> Server_error e
      | Inr a_invited \<Rightarrow>
     (case avg_col accepted_count rws of
        Inl e \<Rightarrow> Server_error e
      | Inr a_accepted \<Rightarrow>
     (case rates_of rws of
        Inl e \<Rightarrow> Server_error e
      | Inr rates \<Rightarrow>
     (case avg_rates rates of
        Inl e \<Rightarrow> Server_error e
      | Inr a_rate \<Rightarrow>
          Render_report
            \<lparr>rows = rws, filter_club_id = cid, filter_room_id = rid,
             filter_date_from = date_from_s, filter_date_to = date_to_s,
             stats = \<lparr>avg_duration = py_round a_duration 2,
                      avg_invited = py_round a_invited 2,
                      avg_accepted = py_round a_accepted 2,
                      avg_attendance_rate = py_round a_rate 3\<rparr>\<rparr>)))))))))"

subsection \<open>The rows of init-db\<close>

definition seed_meetings :: store where
  "seed_meetings =
     [\<lparr>meeting_id = 1, date = (2025, 11, 10), start_time = (12, 0, 0, 0),
       duration_minutes = 60, description = Some ''Weekly meetup'',
       club_id = 1, room_id = 1, invited_count = 20, accepted_count = 12\<rparr>,
      \<lparr>meeting_id = 2, date = (2025, 11, 12), start_time = (15, 30, 0, 0),
       duration_minutes = 90, description = Some ''Workshop'',
       club_id = 2, room_id = 2, invited_count = 35, accepted_count = 22\<rparr>]"

subsection \<open>Notions of the specification\<close>

text \<open>
  The report filter in the words of the specification. A club or room id is asked for
  when the query value denotes an integer other than 0; a meeting passes when it has the
  id asked for, or none is asked for. The date range is inclusive, with both ends
  optional. An id can be bound when it fits in 64 bits.
\<close>

definition requested_id :: "string option \<Rightarrow> int option" where
  "requested_id s =
     (case s of
        None \<Rightarrow> None
      | Some x \<Rightarrow>
          (case py_int x of
             Inl e \<Rightarrow> None
           | Inr c \<Rightarrow> if c = 0 then None else Some c))"

definition bindable :: "int option \<Rightarrow> bool" where
  "bindable p = (case p of None \<Rightarrow> True | Some c \<Rightarrow> fits_int64 c)"

definition id_filter :: "int option \<Rightarrow> int \<Rightarrow> bool" where
  "id_filter p x = (case p of None \<Rightarrow> True | Some c \<Rightarrow> x = c)"

definition in_date_range :: "dt_date option \<Rightarrow> dt_date option \<Rightarrow> dt_date \<Rightarrow> bool" where
  "in_date_range date_from date_to x \<longleftrightarrow>
     (case date_from of None \<Rightarrow> True | Some f \<Rightarrow> f \<le> x) \<and>
     (case date_to of None \<Rightarrow> True | Some u \<Rightarrow> x \<le> u)"

definition report_matches ::
  "int option \<Rightarrow> int option \<Rightarrow> dt_date option \<Rightarrow> dt_date option \<Rightarrow> meeting \<Rightarrow> bool" where
  "report_matches club room date_from date_to m \<longleftrightarrow>
     id_filter club (club_id m) \<and> id_filter room (room_id m) \<and>
     in_date_range date_from date_to (date m)"

text \<open>
  The averages in the words of the specification: sum over count, 0 if there are no
  rows; the attendance rate of one meeting; the mean of a list of rates, 0 if it is
  empty.
\<close>

definition col_mean :: "(meeting \<Rightarrow> int) \<Rightarrow> meeting list \<Rightarrow> number" where
  "col_mean col xs =
     (if xs = [] then PyInt 0
      else PyFloat (Int_div (sum_list (map col xs)) (int (length xs))))"

definition attendance_rate :: "meeting \<Rightarrow> float_expr" where
  "attendance_rate m = Int_div (accepted_count m) (invited_count m)"

definition mean :: "float_expr list \<Rightarrow> number" where
  "mean xs =
     (if xs = [] then PyInt 0
      else PyFloat (Float_div (Float_sum xs) (int (length xs))))"

text \<open>The four averages of the report as one expression over the matching rows.\<close>

definition stats_of :: "meeting list \<Rightarrow> report_stats" where
  "stats_of xs =
     \<lparr>avg_duration = py_round (col_mean duration_minutes xs) 2,
      avg_invited = py_round (col_mean invited_count xs) 2,
      avg_accepted = py_round (col_mean accepted_count xs) 2,
      avg_attendance_rate =
        py_round (mean (map attendance_rate (filter (\<lambda>m. invited_count m \<noteq> 0) xs))) 3\<rparr>"

text \<open>
  The data model of the specification: invited and accepted counts are non-negative.
  The handlers keep this up by clamping; the store does not enforce it.
\<close>

definition counts_nonneg :: "store \<Rightarrow> bool" where
  "counts_nonneg db = list_all (\<lambda>m. 0 \<le> invited_count m \<and> 0 \<le> accepted_count m) db"

text \<open>
  A query value that switches a club or room filter off: \<open>int\<close> raises on it, or it
  denotes zero.
\<close>

definition no_filter_value :: "string \<Rightarrow> bool" where
  "no_filter_value s = (case py_int s of Inl e \<Rightarrow> True | Inr v \<Rightarrow> v = 0)"

text \<open>
  The failures of the specification's taxonomy: a response that is a server error, a
  date field that is not empty and that \<open>strptime\<close> refuses, a count or id field that
  is not empty and on which \<open>int\<close> raises.
\<close>

definition is_server_error :: "response \<Rightarrow> bool" where
  "is_server_error r = (case r of Server_error e \<Rightarrow> True | _ \<Rightarrow> False)"

definition malformed_date :: "string option \<Rightarrow> bool" where
  "malformed_date s =
     (case s of
        None \<Rightarrow> False
      | Some x \<Rightarrow> x \<noteq> [] \<and> (case strptime_Ymd x of Inl e \<Rightarrow> True | Inr d \<Rightarrow> False))"

definition non_numeric :: "string option \<Rightarrow> bool" where
  "non_numeric s =
     (case s of
        None \<Rightarrow> False
      | Some x \<Rightarrow> x \<noteq> [] \<and> (case py_int x of Inl e \<Rightarrow> True | Inr v \<Rightarrow> False))"

definition bad_count_or_id :: "form \<Rightarrow> bool" where
  "bad_count_or_id form \<longleftrightarrow>
     non_numeric (form ''invited_count'') \<or> non_numeric (form ''accepted_count'')
     \<or> non_numeric (form ''club_id'') \<or> non_numeric (form ''room_id'')"

text \<open>
  The value of a float expression in arithmetic without rounding error, \<open>round\<close>
  taking the nearest multiple of the power of ten (ties to even). It reads the
  expressions of the examples; it is not the arithmetic of CPython, whose floats are
  binary.
\<close>

definition round_half_even :: "rat \<Rightarrow> int" where
  "round_half_even x =
     (let f = \<lfloor>x\<rfloor>; r = x - of_int f
      in if r < 1 / 2 then f
         else if 1 / 2 < r then f + 1
         else if even f then f else f + 1)"

fun exact_value :: "float_expr \<Rightarrow> rat" where
  "exact_value (Int_div a b) = of_int a / of_int b"
| "exact_value (Float_sum xs) = sum_list (map exact_value xs)"
| "exact_value (Float_div x n) = exact_value x / of_int n"
| "exact_value (Float_round x k) =
     of_int (round_half_even (exact_value x * 10 ^ k)) / 10 ^ k"

subsection \<open>Example requests and stores\<close>

text \<open>
  A clock reading, forms as a browser would submit them, query strings of the report
  route, and a store with invited counts 20, 0, 10 and accepted counts 12, 5, 0.
\<close>

definition now0 :: datetime where
  "now0 = ((2026, 11, 6), (9, 0, 0, 0))"

definition no_args :: form where
  "no_args = (\<lambda>k. None)"

definition form_past :: form where
  "form_past =
     map_of [(''date'', ''2020-01-01''), (''start_time'', ''10:00''),
             (''duration_minutes'', ''60''), (''description'', ''Retrospective''),
             (''club_id'', ''1''), (''room_id'', ''1''),
             (''invited_count'', ''5''), (''accepted_count'', ''3'')]"

definition form_future_neg :: form where
  "form_future_neg =
     map_of [(''date'', ''2999-12-31''), (''start_time'', ''18:30''),
             (''duration_minutes'', ''45''), (''description'', ''Kick-off''),
             (''club_id'', ''1''), (''room_id'', ''2''),
             (''invited_count'', ''-5''), (''accepted_count'', '''')]"

definition created_row :: meeting where
  "created_row =
     \<lparr>meeting_id = 3, date = (2999, 12, 31), start_time = (18, 30, 0, 0),
      duration_minutes = 45, description = Some ''Kick-off'',
      club_id = 1, room_id = 2, invited_count = 0, accepted_count = 0\<rparr>"

definition form_no_date :: form where
  "form_no_date =
     map_of [(''date'', ''''), (''start_time'', ''18:30''),
             (''duration_minutes'', ''45''),
             (''club_id'', ''1''), (''room_id'', ''2''),
             (''invited_count'', ''8''), (''accepted_count'', ''3'')]"

definition form_bad_date :: form where
  "form_bad_date = form_future_neg(''date'' := Some ''31/12/2999'')"

definition form_bad_count :: form where
  "form_bad_count = form_future_neg(''invited_count'' := Some ''lots'')"

definition form_sep_count :: form where
  "form_sep_count = form_future_neg(''invited_count'' := Some [CHR 0x1C, CHR ''5''])"

definition form_nbsp_count :: form where
  "form_nbsp_count = form_future_neg(''invited_count'' := Some [CHR 0xA0, CHR ''5''])"

definition form_bad_room :: form where
  "form_bad_room = form_future_neg(''room_id'' := Some ''2b'')"

definition uninvited_meeting :: meeting where
  "uninvited_meeting =
     \<lparr>meeting_id = 2, date = (2026, 1, 11), start_time = (12, 0, 0, 0),
      duration_minutes = 30, description = None,
      club_id = 1, room_id = 2, invited_count = 0, accepted_count = 5\<rparr>"

definition attendance_store :: store where
  "attendance_store =
     [\<lparr>meeting_id = 1, date = (2026, 1, 10), start_time = (12, 0, 0, 0),
       duration_minutes = 60, description = None,
       club_id = 1, room_id = 1, invited_count = 20, accepted_count = 12\<rparr>,
      uninvited_meeting,
      \<lparr>meeting_id = 3, date = (2026, 1, 12), start_time = (9, 30, 0, 0),
       duration_minutes = 90, description = None,
       club_id = 2, room_id = 1, invited_count = 10, accepted_count = 0\<rparr>]"

definition args_range :: form where
  "args_range = map_of [(''date_from'', ''2025-11-12''), (''date_to'', ''2025-11-12'')]"

definition args_club_range :: form where
  "args_club_range =
     map_of [(''date_from'', ''2025-11-01''), (''date_to'', ''2025-11-30''),
             (''club_id'', ''1'')]"

definition args_room_2 :: form where
  "args_room_2 = map_of [(''room_id'', ''2'')]"

definition args_club_sep :: form where
  "args_club_sep = map_of [(''club_id'', [CHR 0x1C, CHR ''2''])]"

definition args_club_nbsp :: form where
  "args_club_nbsp = map_of [(''club_id'', [CHR 0xA0, CHR ''2''])]"

definition args_club_huge :: form where
  "args_club_huge = map_of [(''club_id'', ''9223372036854775808'')]"

definition args_empty_range :: form where
  "args_empty_range = map_of [(''date_from'', ''2026-01-01''), (''club_id'', ''1'')]"

definition args_club_zero :: form where
  "args_club_zero = map_of [(''club_id'', ''0''), (''room_id'', ''many'')]"

definition args_club_abc :: form where
  "args_club_abc = map_of [(''club_id'', ''abc'')]"

definition args_bad_date_to :: form where
  "args_bad_date_to = map_of [(''club_id'', ''1''), (''date_to'', ''tomorrow'')]"

section \<open>Properties\<close>

subsection \<open>Evaluating the parsers on literals\<close>

lemmas strptime_eval = strptime_Ymd_def directive_Y_def directive_m_def directive_d_def
  num12_def digit_of_def decimal_value_def valid_date_def days_in_month_def is_leap_def

lemmas py_int_eval = py_int_def strip_def is_space_def digit_of_def decimal_value_def
  int_max_str_digits_def

lemma py_int_examples:
  "py_int ''42'' = Inr 42"
  "py_int '' -5 '' = Inr (- 5)"
  "py_int ''1_000'' = Inr 1000"
  "py_int ''abc'' = Inl ValueError"
  "py_int '''' = Inl ValueError"
  "py_int [CHR 0x1C, CHR ''5''] = Inl ValueError"
  "py_int [CHR 0xA0, CHR ''5''] = Inr 5"
  by (simp_all add: py_int_eval)

lemma py_int_error: "py_int x = Inl e \<Longrightarrow> e = ValueError"
  by (auto simp: py_int_def Let_def split: list.splits option.splits if_splits prod.splits)

lemma strptime_Ymd_error: "strptime_Ymd x = Inl e \<Longrightarrow> e = ValueError"
  by (auto simp: strptime_Ymd_def split: list.splits option.splits if_splits)

lemma get_or_404_seed_1:
  "get_or_404 seed_meetings 1 =
     Inr (Some \<lparr>meeting_id = 1, date = (2025, 11, 10), start_time = (12, 0, 0, 0),
       duration_minutes = 60, description = Some ''Weekly meetup'',
       club_id = 1, room_id = 1, invited_count = 20, accepted_count = 12\<rparr>)"
  by (simp add: get_or_404_def fits_int64_def seed_meetings_def)

subsection \<open>The past-check\<close>

text \<open>
  Earlier means: on an earlier date, or on the same date at an earlier time; dates and
  times compare field by field.
\<close>

lemma combine_less_iff:
  "combine d t < combine d' t' \<longleftrightarrow> d < d' \<or> (d = d' \<and> t < t')"
  by (auto simp: combine_def)

lemma date_less_iff:
  "((y, m, d) :: dt_date) < (y', m', d') \<longleftrightarrow>
     y < y' \<or> (y = y' \<and> (m < m' \<or> (m = m' \<and> d < d')))"
  by auto

text \<open>
  C3. For every date \<open>d\<close> and time \<open>t\<close>, each possibly absent, the past-check is true
  exactly when both are present and their combination is strictly earlier than the
  current local time; it is false whenever one of them is absent, and false for the
  current instant itself.
\<close>

theorem reject_if_past_iff:
  "(reject_if_past now d t \<longleftrightarrow>
      (\<exists>d' t'. d = Some d' \<and> t = Some t' \<and> combine d' t' < now))
   \<and> \<not> reject_if_past now None t
   \<and> \<not> reject_if_past now d None
   \<and> \<not> reject_if_past (combine d0 t0) (Some d0) (Some t0)"
  by (auto simp: reject_if_past_def split: option.splits)

lemma reject_if_past_examples:
  "reject_if_past now0 (Some (2026, 11, 6)) (Some (8, 59, 59, 0))"
  "\<not> reject_if_past now0 (Some (2026, 11, 6)) (Some (9, 0, 0, 0))"
  "\<not> reject_if_past now0 (Some (2026, 11, 7)) (Some (0, 0, 0, 0))"
  "\<not> reject_if_past now0 None (Some (8, 0, 0, 0))"
  "\<not> reject_if_past now0 (Some (2020, 1, 1)) None"
  by (simp_all add: reject_if_past_def combine_def now0_def)

subsection \<open>Rejection of a date and time in the past\<close>

text \<open>
  C2. When the submitted date and time parse and combine to a datetime strictly before
  the clock reading, create answers with a redirect to the new-form and update (of an
  existing meeting) with a redirect to its edit-form, both carrying the notice, and the
  stored meetings are exactly what they were.
\<close>

theorem past_request_persists_nothing:
  assumes "parse_date (form ''date'') = Inr (Some d)"
    and "parse_time (form ''start_time'') = Some t"
    and "combine d t < now"
  shows "meetings_create now form db =
           (Redirect Meetings_new ''Cannot schedule a meeting in the past!'', db)
         \<and> (\<forall>i m. get_or_404 db i = Inr (Some m) \<longrightarrow>
               meetings_update now i form db =
                 (Redirect (Meetings_edit i) ''Cannot schedule a meeting in the past!'', db))"
proof -
  from assms have past: "reject_if_past now (Some d) (Some t)"
    by (simp add: reject_if_past_def)
  from assms(1,2) past have "meetings_create now form db =
      (Redirect Meetings_new ''Cannot schedule a meeting in the past!'', db)"
    by (simp add: meetings_create_def)
  moreover from assms(1,2) past have "\<forall>i m. get_or_404 db i = Inr (Some m) \<longrightarrow>
      meetings_update now i form db =
        (Redirect (Meetings_edit i) ''Cannot schedule a meeting in the past!'', db)"
    by (simp add: meetings_update_def)
  ultimately show ?thesis by blast
qed

lemma parse_date_form_past: "parse_date (form_past ''date'') = Inr (Some (2020, 1, 1))"
  by (simp add: form_past_def parse_date_def strptime_eval)

lemma parse_time_form_past: "parse_time (form_past ''start_time'') = Some (10, 0, 0, 0)"
  by (simp add: form_past_def parse_time_def strptime_HM_def directive_H_def
      directive_M_def num12_def digit_of_def)

theorem past_request_persists_nothing_witness:
  "parse_date (form_past ''date'') = Inr (Some (2020, 1, 1))
   \<and> parse_time (form_past ''start_time'') = Some (10, 0, 0, 0)
   \<and> combine (2020, 1, 1) (10, 0, 0, 0) < now0
   \<and> meetings_create now0 form_past seed_meetings =
       (Redirect Meetings_new ''Cannot schedule a meeting in the past!'', seed_meetings)
   \<and> meetings_update now0 1 form_past seed_meetings =
       (Redirect (Meetings_edit 1) ''Cannot schedule a meeting in the past!'', seed_meetings)"
proof -
  have lt: "combine (2020, 1, 1) (10, 0, 0, 0) < now0"
    by (simp add: combine_def now0_def)
  note inst = past_request_persists_nothing
    [OF parse_date_form_past parse_time_form_past lt, of seed_meetings]
  from inst get_or_404_seed_1 have "meetings_update now0 1 form_past seed_meetings =
      (Redirect (Meetings_edit 1) ''Cannot schedule a meeting in the past!'', seed_meetings)"
    by blast
  with inst lt parse_date_form_past parse_time_form_past show ?thesis
    by blast
qed

subsection \<open>Report\<close>

lemma rates_of_eq:
  "rates_of xs =
     Inr (map (attendance_rate) (filter (\<lambda>m. invited_count m \<noteq> 0) xs))"
  by (induction xs) (simp_all add: truediv_def attendance_rate_def)

lemma avg_col_eq: "avg_col col xs = Inr (col_mean col xs)"
  by (simp add: avg_col_def truediv_def col_mean_def Let_def)

lemma avg_rates_eq: "avg_rates rs = Inr (mean rs)"
  by (simp add: avg_rates_def mean_def)

lemma guarded_parse_date:
  "(if truthy_str s then parse_date s else Inr None) = parse_date s"
  by (simp add: truthy_str_def parse_date_def split: option.splits)

lemma parse_date_None: "parse_date None = Inr None"
  by (simp add: parse_date_def)

lemma parse_date_malformed: "malformed_date s \<Longrightarrow> parse_date s = Inl ValueError"
  by (auto simp: malformed_date_def parse_date_def split: option.splits sum.splits
      dest: strptime_Ymd_error)

lemma parse_date_well_formed: "\<not> malformed_date s \<Longrightarrow> \<exists>d. parse_date s = Inr d"
  by (auto simp: malformed_date_def parse_date_def split: option.splits sum.splits)

lemma parse_date_Inr_well_formed: "parse_date s = Inr d \<Longrightarrow> \<not> malformed_date s"
  by (auto simp: malformed_date_def parse_date_def split: option.splits sum.splits if_splits)

text \<open>
  The id that \<open>request.args.get(k, type=int)\<close> and \<open>if club_id:\<close> together let
  through to the query is the id the query value asks for.
\<close>

lemma bound_id_args_get_int:
  "bound_id (args_get_int s) = (case requested_id s of None \<Rightarrow> [] | Some c \<Rightarrow> [c])"
  by (simp add: bound_id_def args_get_int_def requested_id_def split: option.splits sum.splits)

lemma report_eq:
  "report args db =
     (case parse_date (args ''date_from'') of
        Inl e \<Rightarrow> Server_error e
      | Inr date_from \<Rightarrow>
          (case parse_date (args ''date_to'') of
             Inl e \<Rightarrow> Server_error e
           | Inr date_to \<Rightarrow>
               (case report_query (args_get_int (args ''club_id''))
                       (args_get_int (args ''room_id'')) date_from date_to db of
                  Inl e \<Rightarrow> Server_error e
                | Inr rws \<Rightarrow>
                    Render_report
                      \<lparr>rows = rws,
                       filter_club_id = args_get_int (args ''club_id''),
                       filter_room_id = args_get_int (args ''room_id''),
                       filter_date_from = args ''date_from'',
                       filter_date_to = args ''date_to'',
                       stats = stats_of rws\<rparr>)))"
  unfolding report_def Let_def guarded_parse_date rates_of_eq avg_col_eq avg_rates_eq stats_of_def
  by (simp split: sum.splits)

lemma report_query_eq:
  "report_query (args_get_int cs) (args_get_int rs) date_from date_to db =
     (if bindable (requested_id cs) \<and> bindable (requested_id rs)
      then Inr (order_by_asc
             (filter (report_matches (requested_id cs) (requested_id rs) date_from date_to) db))
      else Inl OverflowError)"
proof -
  let ?cid = "args_get_int cs" and ?rid = "args_get_int rs"
  have b: "list_all fits_int64 (bound_id ?cid @ bound_id ?rid) \<longleftrightarrow>
      bindable (requested_id cs) \<and> bindable (requested_id rs)"
    by (simp add: bound_id_args_get_int bindable_def split: option.splits)
  have c: "(case ?cid of None \<Rightarrow> q | Some c \<Rightarrow> if c \<noteq> 0 then filter (\<lambda>m. club_id m = c) q else q)
      = filter (\<lambda>m. id_filter (requested_id cs) (club_id m)) q" for q
    by (simp add: args_get_int_def requested_id_def id_filter_def split: option.splits sum.splits)
  have r: "(case ?rid of None \<Rightarrow> q | Some c \<Rightarrow> if c \<noteq> 0 then filter (\<lambda>m. room_id m = c) q else q)
      = filter (\<lambda>m. id_filter (requested_id rs) (room_id m)) q" for q
    by (simp add: args_get_int_def requested_id_def id_filter_def split: option.splits sum.splits)
  have f: "(case date_from of None \<Rightarrow> q | Some f \<Rightarrow> filter (\<lambda>m. date m \<ge> f) q)
      = filter (\<lambda>m. case date_from of None \<Rightarrow> True | Some f \<Rightarrow> f \<le> date m) q" for q
    by (simp split: option.splits)
  have t: "(case date_to of None \<Rightarrow> q | Some u \<Rightarrow> filter (\<lambda>m. date m \<le> u) q)
      = filter (\<lambda>m. case date_to of None \<Rightarrow> True | Some u \<Rightarrow> date m \<le> u) q" for q
    by (simp split: option.splits)
  show ?thesis
    unfolding report_query_def Let_def b c r f t
    by (auto simp: report_matches_def in_date_range_def intro!: arg_cong [where f = order_by_asc]
        filter_cong)
qed

lemma mset_order_by_asc: "mset (order_by_asc xs) = mset xs"
  by (simp add: order_by_asc_def)

lemma mset_order_by_desc: "mset (order_by_desc xs) = mset xs"
  by (simp add: order_by_desc_def)

lemma sorted_wrt_order_by_asc:
  "sorted_wrt (\<lambda>a b. sort_cols a \<le> sort_cols b) (order_by_asc xs)"
proof -
  have "sorted (map sort_cols (sort_key sort_cols xs))"
    by (rule sorted_sort_key)
  then show ?thesis
    by (simp add: order_by_asc_def sorted_map)
qed

lemma sorted_wrt_order_by_desc:
  "sorted_wrt (\<lambda>a b. sort_cols b \<le> sort_cols a) (order_by_desc xs)"
proof -
  have "sorted (map sort_cols (sort_key sort_cols (rev xs)))"
    by (rule sorted_sort_key)
  then have "sorted_wrt (\<lambda>a b. sort_cols a \<le> sort_cols b) (sort_key sort_cols (rev xs))"
    by (simp add: sorted_map)
  then show ?thesis
    by (simp add: order_by_desc_def sorted_wrt_rev)
qed

lemma sort_cols_le_iff:
  "sort_cols a \<le> sort_cols b \<longleftrightarrow>
     date a < date b \<or> (date a = date b \<and> start_time a \<le> start_time b)"
  by (auto simp: sort_cols_def)

text \<open>
  What a report request with parsing dates and bindable ids is answered with: the
  matching rows in ascending order, the echoed filters, and the averages over those
  rows.
\<close>

lemma report_rendered:
  assumes "parse_date (args ''date_from'') = Inr date_from"
    and "parse_date (args ''date_to'') = Inr date_to"
    and "bindable (requested_id (args ''club_id''))"
    and "bindable (requested_id (args ''room_id''))"
  shows "report args db =
     Render_report
       \<lparr>rows = order_by_asc
                 (filter (report_matches (requested_id (args ''club_id''))
                            (requested_id (args ''room_id'')) date_from date_to) db),
        filter_club_id = args_get_int (args ''club_id''),
        filter_room_id = args_get_int (args ''room_id''),
        filter_date_from = args ''date_from'',
        filter_date_to = args ''date_to'',
        stats = stats_of
                 (order_by_asc
                   (filter (report_matches (requested_id (args ''club_id''))
                              (requested_id (args ''room_id'')) date_from date_to) db))\<rparr>"
  using assms by (simp add: report_eq report_query_eq)

lemma report_Render:
  assumes "report args db = Render_report v"
  obtains date_from date_to where
    "parse_date (args ''date_from'') = Inr date_from"
    "parse_date (args ''date_to'') = Inr date_to"
    "bindable (requested_id (args ''club_id''))"
    "bindable (requested_id (args ''room_id''))"
    "rows v = order_by_asc
                (filter (report_matches (requested_id (args ''club_id''))
                           (requested_id (args ''room_id'')) date_from date_to) db)"
    "stats v = stats_of (rows v)"
  using assms unfolding report_eq report_query_eq
  by (auto split: sum.splits if_splits)

lemma report_overflow:
  assumes "\<not> malformed_date (args ''date_from'')" and "\<not> malformed_date (args ''date_to'')"
    and "\<not> (bindable (requested_id (args ''club_id''))
            \<and> bindable (requested_id (args ''room_id'')))"
  shows "report args db = Server_error OverflowError"
proof -
  from assms(1,2) obtain d u where "parse_date (args ''date_from'') = Inr d"
    and "parse_date (args ''date_to'') = Inr u"
    using parse_date_well_formed by blast
  with assms(3) show ?thesis
    by (simp add: report_eq report_query_eq)
qed

lemma report_renders_iff:
  "(\<exists>v. report args db = Render_report v) \<longleftrightarrow>
     \<not> malformed_date (args ''date_from'') \<and> \<not> malformed_date (args ''date_to'')
     \<and> bindable (requested_id (args ''club_id'')) \<and> bindable (requested_id (args ''room_id''))"
proof
  assume "\<exists>v. report args db = Render_report v"
  then obtain v where "report args db = Render_report v" ..
  then obtain date_from date_to where "parse_date (args ''date_from'') = Inr date_from"
    and "parse_date (args ''date_to'') = Inr date_to"
    and "bindable (requested_id (args ''club_id''))"
    and "bindable (requested_id (args ''room_id''))"
    by (rule report_Render)
  then show "\<not> malformed_date (args ''date_from'') \<and> \<not> malformed_date (args ''date_to'')
     \<and> bindable (requested_id (args ''club_id'')) \<and> bindable (requested_id (args ''room_id''))"
    by (simp add: parse_date_Inr_well_formed)
next
  assume a: "\<not> malformed_date (args ''date_from'') \<and> \<not> malformed_date (args ''date_to'')
     \<and> bindable (requested_id (args ''club_id'')) \<and> bindable (requested_id (args ''room_id''))"
  then obtain d u where "parse_date (args ''date_from'') = Inr d"
    and "parse_date (args ''date_to'') = Inr u"
    using parse_date_well_formed by blast
  with a show "\<exists>v. report args db = Render_report v"
    by (simp add: report_rendered)
qed

lemma report_club_huge:
  "requested_id (args_club_huge ''club_id'') = Some 9223372036854775808"
  "\<not> bindable (requested_id (args_club_huge ''club_id''))"
  "report args_club_huge seed_meetings = Server_error OverflowError"
proof -
  show r: "requested_id (args_club_huge ''club_id'') = Some 9223372036854775808"
    by (simp add: requested_id_def args_club_huge_def py_int_eval)
  then show b: "\<not> bindable (requested_id (args_club_huge ''club_id''))"
    by (simp add: bindable_def fits_int64_def)
  have "\<not> malformed_date (args_club_huge ''date_from'')"
    and "\<not> malformed_date (args_club_huge ''date_to'')"
    by (simp_all add: malformed_date_def args_club_huge_def)
  with b show "report args_club_huge seed_meetings = Server_error OverflowError"
    by (simp add: report_overflow)
qed

lemma report_error_kinds:
  assumes "report args db = Server_error e"
  shows "e = ValueError \<or> e = OverflowError"
proof (cases "malformed_date (args ''date_from'') \<or> malformed_date (args ''date_to'')")
  case True
  then have "parse_date (args ''date_from'') = Inl ValueError
      \<or> (\<exists>d. parse_date (args ''date_from'') = Inr d)
         \<and> parse_date (args ''date_to'') = Inl ValueError"
    using parse_date_malformed parse_date_well_formed by blast
  with assms show ?thesis
    by (auto simp: report_eq)
next
  case False
  with assms show ?thesis
    using report_overflow [of args db] report_renders_iff [of args db] by auto
qed

lemma mean_Nil: "mean [] = PyInt 0"
  by (simp add: mean_def)

lemma stats_of_Nil:
  "stats_of [] =
     \<lparr>avg_duration = PyInt 0, avg_invited = PyInt 0, avg_accepted = PyInt 0,
      avg_attendance_rate = PyInt 0\<rparr>"
  by (simp add: stats_of_def col_mean_def mean_def py_round_def)

text \<open>
  C1. For a report request whose dates parse and whose ids can be bound, over a store
  with non-negative counts, the report is rendered over the matching rows. Its average
  attendance rate is the rounded mean of accepted_count/invited_count over the rows with
  invited_count > 0 only, and the int 0 when there is no such row; the averages of
  duration, invited and accepted counts are rounded means over all matching rows, those
  with invited_count = 0 included.
\<close>

theorem report_attendance_rate:
  assumes "parse_date (args ''date_from'') = Inr date_from"
    and "parse_date (args ''date_to'') = Inr date_to"
    and "bindable (requested_id (args ''club_id''))"
    and "bindable (requested_id (args ''room_id''))"
    and "counts_nonneg db"
  shows "\<exists>v. report args db = Render_report v
         \<and> mset (rows v) =
             filter_mset
               (report_matches (requested_id (args ''club_id''))
                  (requested_id (args ''room_id'')) date_from date_to) (mset db)
         \<and> avg_attendance_rate (stats v) =
             py_round
               (mean (map attendance_rate
                           (filter (\<lambda>m. 0 < invited_count m) (rows v)))) 3
         \<and> (filter (\<lambda>m. 0 < invited_count m) (rows v) = [] \<longrightarrow>
               avg_attendance_rate (stats v) = PyInt 0)
         \<and> avg_duration (stats v) = py_round (col_mean duration_minutes (rows v)) 2
         \<and> avg_invited (stats v) = py_round (col_mean invited_count (rows v)) 2
         \<and> avg_accepted (stats v) = py_round (col_mean accepted_count (rows v)) 2"
proof -
  let ?rws = "order_by_asc
                (filter (report_matches (requested_id (args ''club_id''))
                           (requested_id (args ''room_id'')) date_from date_to) db)"
  let ?v = "\<lparr>rows = ?rws,
        filter_club_id = args_get_int (args ''club_id''),
        filter_room_id = args_get_int (args ''room_id''),
        filter_date_from = args ''date_from'',
        filter_date_to = args ''date_to'',
        stats = stats_of ?rws\<rparr>"
  from assms(1-4) have v: "report args db = Render_report ?v"
    by (rule report_rendered)
  have m: "mset (rows ?v) =
             filter_mset
               (report_matches (requested_id (args ''club_id''))
                  (requested_id (args ''room_id'')) date_from date_to) (mset db)"
    by (simp add: mset_order_by_asc)
  then have "set_mset (mset (rows ?v)) \<subseteq> set_mset (mset db)"
    by (metis multiset_filter_subset set_mset_mono)
  then have "set (rows ?v) \<subseteq> set db"
    by simp
  with assms(5) have "\<forall>m \<in> set (rows ?v). 0 \<le> invited_count m"
    by (auto simp: counts_nonneg_def list_all_iff)
  then have flt: "filter (\<lambda>m. invited_count m \<noteq> 0) (rows ?v) =
      filter (\<lambda>m. 0 < invited_count m) (rows ?v)"
    by (intro filter_cong) auto
  have r: "avg_attendance_rate (stats ?v) =
             py_round
               (mean (map attendance_rate
                           (filter (\<lambda>m. 0 < invited_count m) (rows ?v)))) 3"
    using flt by (simp add: stats_of_def)
  then have z: "filter (\<lambda>m. 0 < invited_count m) (rows ?v) = [] \<longrightarrow>
               avg_attendance_rate (stats ?v) = PyInt 0"
    by (simp add: mean_Nil py_round_def)
  have d: "avg_duration (stats ?v) = py_round (col_mean duration_minutes (rows ?v)) 2"
    and i: "avg_invited (stats ?v) = py_round (col_mean invited_count (rows ?v)) 2"
    and a: "avg_accepted (stats ?v) = py_round (col_mean accepted_count (rows ?v)) 2"
    by (simp_all add: stats_of_def)
  from v m r z d i a show ?thesis
    by (intro exI [of _ ?v] conjI)
qed

lemma no_args_fields:
  "parse_date (no_args ''date_from'') = Inr None"
  "parse_date (no_args ''date_to'') = Inr None"
  "requested_id (no_args ''club_id'') = None"
  "requested_id (no_args ''room_id'') = None"
  "bindable (requested_id (no_args ''club_id''))"
  "bindable (requested_id (no_args ''room_id''))"
  by (simp_all add: no_args_def parse_date_None requested_id_def bindable_def)

lemma args_room_2_fields:
  "parse_date (args_room_2 ''date_from'') = Inr None"
  "parse_date (args_room_2 ''date_to'') = Inr None"
  "requested_id (args_room_2 ''club_id'') = None"
  "requested_id (args_room_2 ''room_id'') = Some 2"
  "bindable (requested_id (args_room_2 ''club_id''))"
  "bindable (requested_id (args_room_2 ''room_id''))"
  by (simp_all add: args_room_2_def parse_date_None requested_id_def bindable_def
      fits_int64_def py_int_eval)

lemma counts_nonneg_attendance_store: "counts_nonneg attendance_store"
  by (simp add: counts_nonneg_def attendance_store_def uninvited_meeting_def)

lemma order_by_asc_attendance_store: "order_by_asc attendance_store = attendance_store"
  by (simp add: order_by_asc_def sort_cols_def attendance_store_def uninvited_meeting_def)

lemma report_attendance_store:
  "report no_args attendance_store =
     Render_report
       \<lparr>rows = attendance_store, filter_club_id = None, filter_room_id = None,
        filter_date_from = None, filter_date_to = None,
        stats =
          \<lparr>avg_duration = PyFloat (Float_round (Int_div 180 3) 2),
           avg_invited = PyFloat (Float_round (Int_div 30 3) 2),
           avg_accepted = PyFloat (Float_round (Int_div 17 3) 2),
           avg_attendance_rate =
             PyFloat (Float_round
               (Float_div (Float_sum [Int_div 12 20, Int_div 0 10]) 2)
               3)\<rparr>\<rparr>"
proof -
  have "filter (report_matches None None None None) attendance_store = attendance_store"
    by (simp add: report_matches_def id_filter_def in_date_range_def)
  moreover have "stats_of attendance_store =
          \<lparr>avg_duration = PyFloat (Float_round (Int_div 180 3) 2),
           avg_invited = PyFloat (Float_round (Int_div 30 3) 2),
           avg_accepted = PyFloat (Float_round (Int_div 17 3) 2),
           avg_attendance_rate =
             PyFloat (Float_round
               (Float_div (Float_sum [Int_div 12 20, Int_div 0 10]) 2)
               3)\<rparr>"
    by (simp add: stats_of_def col_mean_def mean_def attendance_rate_def py_round_def
        attendance_store_def uninvited_meeting_def)
  ultimately show ?thesis
    using report_rendered [OF no_args_fields(1,2,5,6), of attendance_store]
    by (simp add: no_args_fields order_by_asc_attendance_store)
      (simp add: no_args_def args_get_int_def)
qed

lemma report_attendance_store_room_2:
  "report args_room_2 attendance_store =
     Render_report
       \<lparr>rows = [uninvited_meeting], filter_club_id = None, filter_room_id = Some 2,
        filter_date_from = None, filter_date_to = None,
        stats =
          \<lparr>avg_duration = PyFloat (Float_round (Int_div 30 1) 2),
           avg_invited = PyFloat (Float_round (Int_div 0 1) 2),
           avg_accepted = PyFloat (Float_round (Int_div 5 1) 2),
           avg_attendance_rate = PyInt 0\<rparr>\<rparr>"
proof -
  have f: "filter (report_matches None (Some 2) None None) attendance_store
      = [uninvited_meeting]"
    by (simp add: report_matches_def id_filter_def in_date_range_def attendance_store_def uninvited_meeting_def)
  have o: "order_by_asc [uninvited_meeting] = [uninvited_meeting]"
    by (simp add: order_by_asc_def)
  have "stats_of [uninvited_meeting] =
          \<lparr>avg_duration = PyFloat (Float_round (Int_div 30 1) 2),
           avg_invited = PyFloat (Float_round (Int_div 0 1) 2),
           avg_accepted = PyFloat (Float_round (Int_div 5 1) 2),
           avg_attendance_rate = PyInt 0\<rparr>"
    by (simp add: stats_of_def col_mean_def mean_def attendance_rate_def py_round_def
        attendance_store_def uninvited_meeting_def)
  then show ?thesis
    using report_rendered [OF args_room_2_fields(1,2,5,6), of attendance_store]
    by (simp add: args_room_2_fields f o)
      (simp add: args_room_2_def args_get_int_def py_int_eval)
qed

theorem report_attendance_rate_witness:
  "parse_date (no_args ''date_from'') = Inr None
   \<and> parse_date (no_args ''date_to'') = Inr None
   \<and> bindable (requested_id (no_args ''club_id''))
   \<and> bindable (requested_id (no_args ''room_id''))
   \<and> counts_nonneg attendance_store
   \<and> map invited_count attendance_store = [20, 0, 10]
   \<and> map accepted_count attendance_store = [12, 5, 0]
   \<and> (\<exists>v. report no_args attendance_store = Render_report v
          \<and> rows v = attendance_store
          \<and> avg_attendance_rate (stats v) =
              py_round (mean [Int_div 12 20, Int_div 0 10]) 3
          \<and> avg_attendance_rate (stats v) =
              PyFloat (Float_round
                (Float_div (Float_sum [Int_div 12 20, Int_div 0 10]) 2)
                3)
          \<and> avg_invited (stats v) = PyFloat (Float_round (Int_div 30 3) 2)
          \<and> avg_accepted (stats v) = PyFloat (Float_round (Int_div 17 3) 2))"
proof -
  have e: "\<exists>v. report no_args attendance_store = Render_report v
          \<and> rows v = attendance_store
          \<and> avg_attendance_rate (stats v) =
              py_round (mean [Int_div 12 20, Int_div 0 10]) 3
          \<and> avg_attendance_rate (stats v) =
              PyFloat (Float_round
                (Float_div (Float_sum [Int_div 12 20, Int_div 0 10]) 2)
                3)
          \<and> avg_invited (stats v) = PyFloat (Float_round (Int_div 30 3) 2)
          \<and> avg_accepted (stats v) = PyFloat (Float_round (Int_div 17 3) 2)"
   
  proof -
    from report_attendance_rate
      [OF no_args_fields(1,2,5,6) counts_nonneg_attendance_store]
    obtain v where
      v: "report no_args attendance_store = Render_report v"
      and r: "avg_attendance_rate (stats v) =
             py_round
               (mean (map attendance_rate
                           (filter (\<lambda>m. 0 < invited_count m) (rows v)))) 3"
      and i: "avg_invited (stats v) = py_round (col_mean invited_count (rows v)) 2"
      and a: "avg_accepted (stats v) = py_round (col_mean accepted_count (rows v)) 2"
      by blast
    from v have rws: "rows v = attendance_store"
      by (auto simp: report_attendance_store)
    from r have r1: "avg_attendance_rate (stats v) =
              py_round (mean [Int_div 12 20, Int_div 0 10]) 3"
      unfolding rws by (simp add: attendance_store_def uninvited_meeting_def attendance_rate_def)
    then have r2: "avg_attendance_rate (stats v) =
              PyFloat (Float_round
                (Float_div (Float_sum [Int_div 12 20, Int_div 0 10]) 2)
                3)"
      by (simp add: mean_def py_round_def)
    from i have i1: "avg_invited (stats v) = PyFloat (Float_round (Int_div 30 3) 2)"
      unfolding rws by (simp add: attendance_store_def uninvited_meeting_def col_mean_def py_round_def)
    from a have a1: "avg_accepted (stats v) = PyFloat (Float_round (Int_div 17 3) 2)"
      unfolding rws by (simp add: attendance_store_def uninvited_meeting_def col_mean_def py_round_def)
    from v rws r1 r2 i1 a1 show ?thesis
      by (intro exI [of _ v] conjI)
  qed
  have "map invited_count attendance_store = [20, 0, 10]"
    and "map accepted_count attendance_store = [12, 5, 0]"
    by (simp_all add: attendance_store_def uninvited_meeting_def)
  with no_args_fields(1,2,5,6) counts_nonneg_attendance_store e show ?thesis
    by (intro conjI allI)
qed

text \<open>
  The same averages read without rounding error: (12/20 + 0/10)/2 is 3/10, and the
  invited and accepted averages 30/3 and 17/3 come to 10 and 5.67.
\<close>

lemma report_attendance_store_exact:
  "exact_value (Float_round (Float_div (Float_sum [Int_div 12 20, Int_div 0 10]) 2) 3) = 3 / 10"
  "exact_value (Float_round (Int_div 30 3) 2) = 10"
  "exact_value (Float_round (Int_div 17 3) 2) = 567 / 100"
  by code_simp+

text \<open>
  C5. When date_from and date_to parse (each may be absent) and the ids asked for can be
  bound, the report is rendered and its rows are exactly the stored meetings whose date
  lies in the inclusive range and that have the club and room asked for; when no row
  matches, all four averages are the int 0. No request makes the report raise a
  division by zero.
\<close>

theorem report_date_range:
  assumes "parse_date (args ''date_from'') = Inr date_from"
    and "parse_date (args ''date_to'') = Inr date_to"
    and "bindable (requested_id (args ''club_id''))"
    and "bindable (requested_id (args ''room_id''))"
  shows "\<exists>v. report args db = Render_report v
           \<and> mset (rows v) =
               filter_mset
                 (\<lambda>m. in_date_range date_from date_to (date m)
                      \<and> id_filter (requested_id (args ''club_id'')) (club_id m)
                      \<and> id_filter (requested_id (args ''room_id'')) (room_id m))
                 (mset db)
           \<and> (rows v = [] \<longrightarrow>
                 avg_duration (stats v) = PyInt 0 \<and> avg_invited (stats v) = PyInt 0
                 \<and> avg_accepted (stats v) = PyInt 0
                 \<and> avg_attendance_rate (stats v) = PyInt 0)
           \<and> report args db \<noteq> Server_error ZeroDivisionError"
proof -
  let ?rws = "order_by_asc
                (filter (report_matches (requested_id (args ''club_id''))
                           (requested_id (args ''room_id'')) date_from date_to) db)"
  let ?v = "\<lparr>rows = ?rws,
        filter_club_id = args_get_int (args ''club_id''),
        filter_room_id = args_get_int (args ''room_id''),
        filter_date_from = args ''date_from'',
        filter_date_to = args ''date_to'',
        stats = stats_of ?rws\<rparr>"
  from assms have r: "report args db = Render_report ?v"
    by (rule report_rendered)
  have m: "mset (rows ?v) =
      filter_mset
        (\<lambda>m. in_date_range date_from date_to (date m)
             \<and> id_filter (requested_id (args ''club_id'')) (club_id m)
             \<and> id_filter (requested_id (args ''room_id'')) (room_id m))
        (mset db)"
    by (auto simp: mset_order_by_asc report_matches_def intro: filter_mset_cong)
  have z: "rows ?v = [] \<longrightarrow>
      avg_duration (stats ?v) = PyInt 0 \<and> avg_invited (stats ?v) = PyInt 0
      \<and> avg_accepted (stats ?v) = PyInt 0 \<and> avg_attendance_rate (stats ?v) = PyInt 0"
    by (auto simp: stats_of_Nil)
  from r have n: "report args db \<noteq> Server_error ZeroDivisionError"
    by simp
  from r m z n show ?thesis
    by (intro exI [of _ ?v] conjI)
qed

lemma report_never_ZeroDivisionError: "report args db \<noteq> Server_error ZeroDivisionError"
  using report_error_kinds [of args db ZeroDivisionError] by auto

lemma args_range_fields:
  "parse_date (args_range ''date_from'') = Inr (Some (2025, 11, 12))"
  "parse_date (args_range ''date_to'') = Inr (Some (2025, 11, 12))"
  "requested_id (args_range ''club_id'') = None"
  "requested_id (args_range ''room_id'') = None"
  by (simp_all add: args_range_def parse_date_def strptime_eval requested_id_def)

lemma args_club_range_fields:
  "parse_date (args_club_range ''date_from'') = Inr (Some (2025, 11, 1))"
  "parse_date (args_club_range ''date_to'') = Inr (Some (2025, 11, 30))"
  "requested_id (args_club_range ''club_id'') = Some 1"
  "requested_id (args_club_range ''room_id'') = None"
  by (simp_all add: args_club_range_def parse_date_def strptime_eval requested_id_def
      py_int_eval)

lemma args_empty_range_fields:
  "parse_date (args_empty_range ''date_from'') = Inr (Some (2026, 1, 1))"
  "parse_date (args_empty_range ''date_to'') = Inr None"
  "requested_id (args_empty_range ''club_id'') = Some 1"
  "requested_id (args_empty_range ''room_id'') = None"
  by (simp_all add: args_empty_range_def parse_date_def strptime_eval requested_id_def
      py_int_eval)

lemma bindable_simps:
  "bindable None" "bindable (Some 1)" "bindable (Some 2)"
  by (simp_all add: bindable_def fits_int64_def)

lemma mset_ids_singleton:
  assumes "mset xs = mset [x]"
  shows "map meeting_id xs = [meeting_id x]"
  using assms by (metis list.simps(8,9) mset_single_iff_right mset.simps(1,2) add.right_neutral)

theorem report_date_range_witness:
  "parse_date (args_range ''date_from'') = Inr (Some (2025, 11, 12))
   \<and> parse_date (args_range ''date_to'') = Inr (Some (2025, 11, 12))
   \<and> bindable (requested_id (args_range ''club_id''))
   \<and> bindable (requested_id (args_range ''room_id''))
   \<and> (\<exists>v. report args_range seed_meetings = Render_report v
          \<and> map meeting_id (rows v) = [2])
   \<and> parse_date (args_club_range ''date_from'') = Inr (Some (2025, 11, 1))
   \<and> parse_date (args_club_range ''date_to'') = Inr (Some (2025, 11, 30))
   \<and> requested_id (args_club_range ''club_id'') = Some 1
   \<and> bindable (requested_id (args_club_range ''club_id''))
   \<and> bindable (requested_id (args_club_range ''room_id''))
   \<and> (\<exists>v. report args_club_range seed_meetings = Render_report v
          \<and> map meeting_id (rows v) = [1])
   \<and> parse_date (args_empty_range ''date_from'') = Inr (Some (2026, 1, 1))
   \<and> parse_date (args_empty_range ''date_to'') = Inr None
   \<and> bindable (requested_id (args_empty_range ''club_id''))
   \<and> bindable (requested_id (args_empty_range ''room_id''))
   \<and> (\<exists>v. report args_empty_range seed_meetings = Render_report v
          \<and> rows v = []
          \<and> stats v = \<lparr>avg_duration = PyInt 0, avg_invited = PyInt 0,
                        avg_accepted = PyInt 0, avg_attendance_rate = PyInt 0\<rparr>)"
proof -
  have b1: "bindable (requested_id (args_range ''club_id''))"
    "bindable (requested_id (args_range ''room_id''))"
    by (simp_all add: args_range_fields bindable_simps)
  have b2: "bindable (requested_id (args_club_range ''club_id''))"
    "bindable (requested_id (args_club_range ''room_id''))"
    by (simp_all add: args_club_range_fields bindable_simps)
  have b3: "bindable (requested_id (args_empty_range ''club_id''))"
    "bindable (requested_id (args_empty_range ''room_id''))"
    by (simp_all add: args_empty_range_fields bindable_simps)
  have A: "\<exists>v. report args_range seed_meetings = Render_report v
          \<and> map meeting_id (rows v) = [2]"
  proof -
    from report_date_range [OF args_range_fields(1,2) b1, of seed_meetings] obtain v where
      v: "report args_range seed_meetings = Render_report v"
      and mv: "mset (rows v) =
               filter_mset
                 (\<lambda>m. in_date_range (Some (2025, 11, 12)) (Some (2025, 11, 12)) (date m)
                      \<and> id_filter (requested_id (args_range ''club_id'')) (club_id m)
                      \<and> id_filter (requested_id (args_range ''room_id'')) (room_id m))
                 (mset seed_meetings)"
      by blast
    from mv have "mset (rows v) = mset [seed_meetings ! 1]"
      by (simp add: seed_meetings_def in_date_range_def id_filter_def args_range_fields)
    then have "map meeting_id (rows v) = [meeting_id (seed_meetings ! 1)]"
      by (rule mset_ids_singleton)
    then have "map meeting_id (rows v) = [2]"
      by (simp add: seed_meetings_def)
    with v show ?thesis
      by (intro exI [of _ v] conjI)
  qed
  have B: "\<exists>v. report args_club_range seed_meetings = Render_report v
          \<and> map meeting_id (rows v) = [1]"
  proof -
    from report_date_range [OF args_club_range_fields(1,2) b2, of seed_meetings]
    obtain v where
      v: "report args_club_range seed_meetings = Render_report v"
      and mv: "mset (rows v) =
               filter_mset
                 (\<lambda>m. in_date_range (Some (2025, 11, 1)) (Some (2025, 11, 30)) (date m)
                      \<and> id_filter (requested_id (args_club_range ''club_id'')) (club_id m)
                      \<and> id_filter (requested_id (args_club_range ''room_id'')) (room_id m))
                 (mset seed_meetings)"
      by blast
    from mv have "mset (rows v) = mset [seed_meetings ! 0]"
      by (simp add: seed_meetings_def in_date_range_def id_filter_def args_club_range_fields)
    then have "map meeting_id (rows v) = [meeting_id (seed_meetings ! 0)]"
      by (rule mset_ids_singleton)
    then have "map meeting_id (rows v) = [1]"
      by (simp add: seed_meetings_def)
    with v show ?thesis
      by (intro exI [of _ v] conjI)
  qed
  have C: "\<exists>v. report args_empty_range seed_meetings = Render_report v
          \<and> rows v = []
          \<and> stats v = \<lparr>avg_duration = PyInt 0, avg_invited = PyInt 0,
                        avg_accepted = PyInt 0, avg_attendance_rate = PyInt 0\<rparr>"
   
  proof -
    from report_date_range [OF args_empty_range_fields(1,2) b3, of seed_meetings]
    obtain w where
      w: "report args_empty_range seed_meetings = Render_report w"
      and mw: "mset (rows w) =
               filter_mset
                 (\<lambda>m. in_date_range (Some (2026, 1, 1)) None (date m)
                      \<and> id_filter (requested_id (args_empty_range ''club_id'')) (club_id m)
                      \<and> id_filter (requested_id (args_empty_range ''room_id'')) (room_id m))
                 (mset seed_meetings)"
      and zw: "rows w = [] \<longrightarrow>
                 avg_duration (stats w) = PyInt 0 \<and> avg_invited (stats w) = PyInt 0
                 \<and> avg_accepted (stats w) = PyInt 0
                 \<and> avg_attendance_rate (stats w) = PyInt 0"
      by blast
    from mw have e: "rows w = []"
      by (simp add: seed_meetings_def in_date_range_def)
    with zw have "stats w = \<lparr>avg_duration = PyInt 0, avg_invited = PyInt 0,
                        avg_accepted = PyInt 0, avg_attendance_rate = PyInt 0\<rparr>"
      by simp
    with w e show ?thesis
      by (intro exI [of _ w] conjI)
  qed
  from args_range_fields(1,2) b1 A args_club_range_fields(1,2,3) b2 B
    args_empty_range_fields(1,2) b3 C
  show ?thesis
    by (intro conjI allI)
qed

text \<open>
  C6. The list view shows all stored meetings ordered by (date, start_time) descending;
  a report request whose dates parse and whose ids can be bound is rendered with exactly
  its matching rows, ordered by (date, start_time) ascending.
\<close>

theorem list_and_report_ordering:
  "(\<exists>rs. meetings_list db = Render_list rs
          \<and> mset rs = mset db
          \<and> sorted_wrt (\<lambda>a b. sort_cols b \<le> sort_cols a) rs)
   \<and> (parse_date (args ''date_from'') = Inr date_from
      \<and> parse_date (args ''date_to'') = Inr date_to
      \<and> bindable (requested_id (args ''club_id''))
      \<and> bindable (requested_id (args ''room_id'')) \<longrightarrow>
        (\<exists>v. report args db = Render_report v
              \<and> mset (rows v) =
                  filter_mset
                    (report_matches (requested_id (args ''club_id''))
                       (requested_id (args ''room_id'')) date_from date_to) (mset db)
              \<and> sorted_wrt (\<lambda>a b. sort_cols a \<le> sort_cols b) (rows v)))"
proof -
  have l: "\<exists>rs. meetings_list db = Render_list rs
          \<and> mset rs = mset db
          \<and> sorted_wrt (\<lambda>a b. sort_cols b \<le> sort_cols a) rs"
    by (simp add: meetings_list_def mset_order_by_desc sorted_wrt_order_by_desc)
  have r: "\<exists>v. report args db = Render_report v
              \<and> mset (rows v) =
                  filter_mset
                    (report_matches (requested_id (args ''club_id''))
                       (requested_id (args ''room_id'')) date_from date_to) (mset db)
              \<and> sorted_wrt (\<lambda>a b. sort_cols a \<le> sort_cols b) (rows v)"
    if a: "parse_date (args ''date_from'') = Inr date_from
      \<and> parse_date (args ''date_to'') = Inr date_to
      \<and> bindable (requested_id (args ''club_id''))
      \<and> bindable (requested_id (args ''room_id''))"
  proof -
    let ?rws = "order_by_asc
                  (filter (report_matches (requested_id (args ''club_id''))
                             (requested_id (args ''room_id'')) date_from date_to) db)"
    let ?v = "\<lparr>rows = ?rws,
          filter_club_id = args_get_int (args ''club_id''),
          filter_room_id = args_get_int (args ''room_id''),
          filter_date_from = args ''date_from'',
          filter_date_to = args ''date_to'',
          stats = stats_of ?rws\<rparr>"
    from a have v: "report args db = Render_report ?v"
      by (simp add: report_rendered)
    have m: "mset (rows ?v) =
                  filter_mset
                    (report_matches (requested_id (args ''club_id''))
                       (requested_id (args ''room_id'')) date_from date_to) (mset db)"
      by (simp add: mset_order_by_asc)
    have s: "sorted_wrt (\<lambda>a b. sort_cols a \<le> sort_cols b) (rows ?v)"
      by (simp add: sorted_wrt_order_by_asc)
    from v m s show ?thesis
      by (intro exI [of _ ?v] conjI)
  qed
  from l r show ?thesis
    by blast
qed

lemma meetings_list_seed: "meetings_list seed_meetings = Render_list (rev seed_meetings)"
  by (simp add: meetings_list_def order_by_desc_def sort_cols_def seed_meetings_def)

theorem list_and_report_ordering_witness:
  "meetings_list seed_meetings = Render_list (rev seed_meetings)
   \<and> map sort_cols (rev seed_meetings) =
       [((2025, 11, 12), (15, 30, 0, 0)), ((2025, 11, 10), (12, 0, 0, 0))]
   \<and> sorted_wrt (\<lambda>a b. sort_cols b \<le> sort_cols a) (rev seed_meetings)
   \<and> parse_date (no_args ''date_from'') = Inr None
   \<and> parse_date (no_args ''date_to'') = Inr None
   \<and> bindable (requested_id (no_args ''club_id''))
   \<and> bindable (requested_id (no_args ''room_id''))
   \<and> (\<exists>v. report no_args (rev seed_meetings) = Render_report v
          \<and> rows v = seed_meetings
          \<and> sorted_wrt (\<lambda>a b. sort_cols a \<le> sort_cols b) (rows v))"
proof -
  have d: "sorted_wrt (\<lambda>a b. sort_cols b \<le> sort_cols a) (rev seed_meetings)"
    using list_and_report_ordering [THEN conjunct1, of seed_meetings]
    by (simp add: meetings_list_seed)
  have k: "map sort_cols (rev seed_meetings) =
       [((2025, 11, 12), (15, 30, 0, 0)), ((2025, 11, 10), (12, 0, 0, 0))]"
    by (simp add: sort_cols_def seed_meetings_def)
  have e: "\<exists>v. report no_args (rev seed_meetings) = Render_report v
          \<and> rows v = seed_meetings
          \<and> sorted_wrt (\<lambda>a b. sort_cols a \<le> sort_cols b) (rows v)"
  proof -
    from list_and_report_ordering [of "rev seed_meetings" no_args None None] no_args_fields
    obtain v where v: "report no_args (rev seed_meetings) = Render_report v"
      and a: "sorted_wrt (\<lambda>a b. sort_cols a \<le> sort_cols b) (rows v)"
      by blast
    have "filter (report_matches None None None None) (rev seed_meetings) = rev seed_meetings"
      by (simp add: report_matches_def id_filter_def in_date_range_def)
    moreover have "order_by_asc (rev seed_meetings) = seed_meetings"
      by (simp add: order_by_asc_def sort_cols_def seed_meetings_def)
    ultimately have "rows v = seed_meetings"
      using v report_rendered [OF no_args_fields(1,2,5,6), of "rev seed_meetings"]
      by (auto simp: no_args_fields)
    with v a show ?thesis
      by (intro exI [of _ v] conjI)
  qed
  from meetings_list_seed k d no_args_fields(1,2,5,6) e show ?thesis
    by (intro conjI allI)
qed

subsection \<open>Club and room ids that switch the filter off\<close>

lemma requested_id_no_filter: "no_filter_value s \<Longrightarrow> requested_id (Some s) = None"
  by (simp add: no_filter_value_def requested_id_def split: sum.splits)

lemma report_query_no_filter:
  assumes "cid = None \<or> cid = Some 0"
  shows "report_query cid rid date_from date_to db = report_query None rid date_from date_to db"
    and "report_query rid cid date_from date_to db = report_query rid None date_from date_to db"
  using assms by (auto simp: report_query_def bound_id_def)

lemma args_get_int_no_filter:
  "no_filter_value s \<Longrightarrow> args_get_int (Some s) = None \<or> args_get_int (Some s) = Some 0"
  by (auto simp: no_filter_value_def args_get_int_def split: sum.splits)

text \<open>
  C9. A club_id (or room_id) query value that denotes 0 or on which \<open>int\<close> raises has
  the effect of leaving the parameter out: the report has the same rows and averages as
  for the request without it, and only the echoed filter value differs.
\<close>

theorem report_zero_id_is_no_filter:
  "(args ''club_id'' = Some s \<and> no_filter_value s \<longrightarrow>
      report args db =
        (case report (args(''club_id'' := None)) db of
           Render_report v \<Rightarrow> Render_report (v\<lparr>filter_club_id := args_get_int (Some s)\<rparr>)
         | r \<Rightarrow> r))
   \<and> (args ''room_id'' = Some s \<and> no_filter_value s \<longrightarrow>
      report args db =
        (case report (args(''room_id'' := None)) db of
           Render_report v \<Rightarrow> Render_report (v\<lparr>filter_room_id := args_get_int (Some s)\<rparr>)
         | r \<Rightarrow> r))"
proof (intro conjI impI; elim conjE)
  assume a: "args ''club_id'' = Some s" and n: "no_filter_value s"
  from n have g: "args_get_int (Some s) = None \<or> args_get_int (Some s) = Some 0"
    by (rule args_get_int_no_filter)
  have "report_query (args_get_int (Some s)) rid date_from date_to db
      = report_query (args_get_int None) rid date_from date_to db" for rid date_from date_to
    using report_query_no_filter(1) [OF g] by (simp add: args_get_int_def)
  with a show "report args db =
        (case report (args(''club_id'' := None)) db of
           Render_report v \<Rightarrow> Render_report (v\<lparr>filter_club_id := args_get_int (Some s)\<rparr>)
         | r \<Rightarrow> r)"
    unfolding report_eq
    by (auto simp: args_get_int_def split: sum.splits)
next
  assume a: "args ''room_id'' = Some s" and n: "no_filter_value s"
  from n have g: "args_get_int (Some s) = None \<or> args_get_int (Some s) = Some 0"
    by (rule args_get_int_no_filter)
  have "report_query cid (args_get_int (Some s)) date_from date_to db
      = report_query cid (args_get_int None) date_from date_to db" for cid date_from date_to
    using report_query_no_filter(2) [OF g] by (simp add: args_get_int_def)
  with a show "report args db =
        (case report (args(''room_id'' := None)) db of
           Render_report v \<Rightarrow> Render_report (v\<lparr>filter_room_id := args_get_int (Some s)\<rparr>)
         | r \<Rightarrow> r)"
    unfolding report_eq
    by (auto simp: args_get_int_def split: sum.splits)
qed

lemma no_filter_value_examples:
  "no_filter_value ''0''"
  "no_filter_value ''many''"
  "no_filter_value [CHR 0x1C, CHR ''2'']"
  "\<not> no_filter_value [CHR 0xA0, CHR ''2'']"
  "\<not> no_filter_value ''2''"
  by (simp_all add: no_filter_value_def py_int_eval)

lemma report_seed_no_args:
  "report no_args seed_meetings =
     Render_report
       \<lparr>rows = seed_meetings, filter_club_id = None, filter_room_id = None,
        filter_date_from = None, filter_date_to = None,
        stats = stats_of seed_meetings\<rparr>"
proof -
  have "filter (report_matches None None None None) seed_meetings = seed_meetings"
    by (simp add: report_matches_def id_filter_def in_date_range_def)
  moreover have "order_by_asc seed_meetings = seed_meetings"
    by (simp add: order_by_asc_def sort_cols_def seed_meetings_def)
  ultimately show ?thesis
    using report_rendered [OF no_args_fields(1,2,5,6), of seed_meetings]
    by (simp add: no_args_fields) (simp add: no_args_def args_get_int_def)
qed

theorem report_zero_id_is_no_filter_witness:
  "args_club_zero ''club_id'' = Some ''0'' \<and> py_int ''0'' = Inr 0 \<and> no_filter_value ''0''
   \<and> args_club_zero ''room_id'' = Some ''many'' \<and> py_int ''many'' = Inl ValueError
   \<and> no_filter_value ''many''
   \<and> (\<exists>v. report args_club_zero seed_meetings = Render_report v
          \<and> rows v = seed_meetings
          \<and> filter_club_id v = Some 0 \<and> filter_room_id v = None)
   \<and> args_club_sep ''club_id'' = Some [CHR 0x1C, CHR ''2'']
   \<and> py_int [CHR 0x1C, CHR ''2''] = Inl ValueError
   \<and> no_filter_value [CHR 0x1C, CHR ''2'']
   \<and> (\<exists>v. report args_club_sep seed_meetings = Render_report v
          \<and> rows v = seed_meetings
          \<and> filter_club_id v = None)"
proof -
  have c: "args_club_zero ''club_id'' = Some ''0''"
    and r: "args_club_zero ''room_id'' = Some ''many''"
    and s: "args_club_sep ''club_id'' = Some [CHR 0x1C, CHR ''2'']"
    by (simp_all add: args_club_zero_def args_club_sep_def)
  have p: "py_int ''0'' = Inr 0" "py_int ''many'' = Inl ValueError"
    "py_int [CHR 0x1C, CHR ''2''] = Inl ValueError"
    by (simp_all add: py_int_eval)
  let ?args1 = "args_club_zero(''club_id'' := None)"
  let ?args2 = "?args1(''room_id'' := None)"
  have r1: "?args1 ''room_id'' = Some ''many''"
    by (simp add: args_club_zero_def)
  have e2: "?args2 = no_args" "args_club_sep(''club_id'' := None) = no_args"
    by (auto simp: args_club_zero_def args_club_sep_def no_args_def)
  have A: "\<exists>v. report args_club_zero seed_meetings = Render_report v
          \<and> rows v = seed_meetings
          \<and> filter_club_id v = Some 0 \<and> filter_room_id v = None"
  proof -
    from report_zero_id_is_no_filter [of ?args1 "''many''" seed_meetings] r1
      no_filter_value_examples(2)
    have "report ?args1 seed_meetings =
        (case report ?args2 seed_meetings of
           Render_report v \<Rightarrow> Render_report (v\<lparr>filter_room_id := args_get_int (Some ''many'')\<rparr>)
         | r \<Rightarrow> r)"
      by blast
    moreover from report_zero_id_is_no_filter [of args_club_zero "''0''" seed_meetings] c
      no_filter_value_examples(1)
    have "report args_club_zero seed_meetings =
        (case report ?args1 seed_meetings of
           Render_report v \<Rightarrow> Render_report (v\<lparr>filter_club_id := args_get_int (Some ''0'')\<rparr>)
         | r \<Rightarrow> r)"
      by blast
    ultimately have "report args_club_zero seed_meetings =
     Render_report
       \<lparr>rows = seed_meetings, filter_club_id = Some 0, filter_room_id = None,
        filter_date_from = None, filter_date_to = None,
        stats = stats_of seed_meetings\<rparr>"
      by (simp add: e2 report_seed_no_args args_get_int_def p)
    then show ?thesis
      by simp
  qed
  have B: "\<exists>v. report args_club_sep seed_meetings = Render_report v
          \<and> rows v = seed_meetings
          \<and> filter_club_id v = None"
  proof -
    from report_zero_id_is_no_filter [of args_club_sep "[CHR 0x1C, CHR ''2'']" seed_meetings]
      s no_filter_value_examples(3)
    have "report args_club_sep seed_meetings =
        (case report (args_club_sep(''club_id'' := None)) seed_meetings of
           Render_report v \<Rightarrow>
             Render_report (v\<lparr>filter_club_id := args_get_int (Some [CHR 0x1C, CHR ''2''])\<rparr>)
         | r \<Rightarrow> r)"
      by blast
    then have "report args_club_sep seed_meetings =
     Render_report
       \<lparr>rows = seed_meetings, filter_club_id = None, filter_room_id = None,
        filter_date_from = None, filter_date_to = None,
        stats = stats_of seed_meetings\<rparr>"
      by (simp add: e2 report_seed_no_args args_get_int_def p)
    then show ?thesis
      by simp
  qed
  from c p(1) no_filter_value_examples(1) r p(2) no_filter_value_examples(2) A
    s p(3) no_filter_value_examples(3) B
  show ?thesis
    by (intro conjI allI)
qed

text \<open>
  A no-break space before the digit is skipped by \<open>int\<close>: the value denotes 2 and the
  filter applies.
\<close>

lemma report_club_nbsp:
  "requested_id (args_club_nbsp ''club_id'') = Some 2"
  "\<exists>v. report args_club_nbsp seed_meetings = Render_report v
        \<and> map meeting_id (rows v) = [2]"
proof -
  show r: "requested_id (args_club_nbsp ''club_id'') = Some 2"
    by (simp add: requested_id_def args_club_nbsp_def py_int_eval)
  have f: "parse_date (args_club_nbsp ''date_from'') = Inr None"
    "parse_date (args_club_nbsp ''date_to'') = Inr None"
    "requested_id (args_club_nbsp ''room_id'') = None"
    by (simp_all add: args_club_nbsp_def parse_date_None requested_id_def)
  have "filter (report_matches (Some 2) None None None) seed_meetings = [seed_meetings ! 1]"
    by (simp add: report_matches_def id_filter_def in_date_range_def seed_meetings_def)
  moreover have "order_by_asc [seed_meetings ! 1] = [seed_meetings ! 1]"
    by (simp add: order_by_asc_def)
  ultimately have "rows v = [seed_meetings ! 1]"
    if "report args_club_nbsp seed_meetings = Render_report v" for v
    using that report_rendered [OF f(1,2), of seed_meetings]
    by (auto simp: r f bindable_simps)
  moreover have "\<not> malformed_date (args_club_nbsp ''date_from'')"
    and "\<not> malformed_date (args_club_nbsp ''date_to'')"
    by (simp_all add: malformed_date_def args_club_nbsp_def)
  then have "\<exists>v. report args_club_nbsp seed_meetings = Render_report v"
    by (simp add: report_renders_iff r f bindable_simps)
  ultimately show "\<exists>v. report args_club_nbsp seed_meetings = Render_report v
        \<and> map meeting_id (rows v) = [2]"
    by (auto simp: seed_meetings_def)
qed

subsection \<open>Count clamping\<close>

lemma flush_row_fields:
  assumes "flush_row i m = Inr r"
  shows "meeting_id r = i" and "invited_count r = m_invited_count m"
    and "accepted_count r = m_accepted_count m"
    and "m_date m = Some (date r)" and "m_start_time m = Some (start_time r)"
  using assms by (auto simp: flush_row_def split: if_splits option.splits)

lemma meetings_create_success:
  assumes "meetings_create now form db = (Redirect Meetings_list msg, db')"
  obtains d t invited accepted duration club room r where
    "parse_date (form ''date'') = Inr d"
    "parse_time (form ''start_time'') = t"
    "\<not> reject_if_past now d t"
    "int_or_0 (form ''invited_count'') = Inr invited"
    "int_or_0 (form ''accepted_count'') = Inr accepted"
    "int_or_0 (form ''duration_minutes'') = Inr duration"
    "int_req (form ''club_id'') = Inr club"
    "int_req (form ''room_id'') = Inr room"
    "flush_row (next_id db)
       \<lparr>m_date = d, m_start_time = t, m_duration_minutes = duration,
        m_description = form ''description'', m_club_id = club, m_room_id = room,
        m_invited_count = max 0 invited, m_accepted_count = max 0 accepted\<rparr> = Inr r"
    "db' = db @ [r]"
    "msg = ''Meeting created!''"
  using assms unfolding meetings_create_def add_commit_def Let_def
  by (auto split: sum.splits if_splits)

lemma meetings_update_success:
  assumes "meetings_update now k form db = (Redirect Meetings_list msg, db')"
  obtains m d t invited accepted duration club room r where
    "get_or_404 db k = Inr (Some m)"
    "parse_date (form ''date'') = Inr d"
    "parse_time (form ''start_time'') = t"
    "\<not> reject_if_past now d t"
    "int_or_0 (form ''invited_count'') = Inr invited"
    "int_or_0 (form ''accepted_count'') = Inr accepted"
    "int_or_0 (form ''duration_minutes'') = Inr duration"
    "int_req (form ''club_id'') = Inr club"
    "int_req (form ''room_id'') = Inr room"
    "flush_row k
       \<lparr>m_date = d, m_start_time = t, m_duration_minutes = duration,
        m_description = form ''description'', m_club_id = club, m_room_id = room,
        m_invited_count = max 0 invited, m_accepted_count = max 0 accepted\<rparr> = Inr r"
    "db' = map (\<lambda>x. if meeting_id x = k then r else x) db"
    "msg = ''Meeting updated!''"
  using assms unfolding meetings_update_def update_commit_def Let_def
  by (auto split: sum.splits if_splits option.splits)

lemma get_or_404_Some:
  "get_or_404 db i = Inr (Some m) \<longleftrightarrow> fits_int64 i \<and> find (\<lambda>x. meeting_id x = i) db = Some m"
  by (auto simp: get_or_404_def)

lemma get_or_404_None_iff:
  "get_or_404 db i = Inr None \<longleftrightarrow> fits_int64 i \<and> i \<notin> meeting_id ` set db"
  by (auto simp: get_or_404_def find_None_iff)

lemma find_replaced:
  assumes "meeting_id r = k" and "find (\<lambda>x. meeting_id x = k) xs = Some m"
  shows "find (\<lambda>x. meeting_id x = k) (map (\<lambda>x. if meeting_id x = k then r else x) xs) = Some r"
  using assms by (induction xs) (auto split: if_splits)

text \<open>
  C4. An absent or empty count field reads as 0. After a successful create the store
  has one more row, and after a successful update the row of that id is the new one; in
  both the stored invited_count and accepted_count are the maximum of 0 and the
  submitted values.
\<close>

theorem counts_clamped:
  "int_or_0 None = Inr 0 \<and> int_or_0 (Some []) = Inr 0
   \<and> (meetings_create now form db = (Redirect Meetings_list msg, db') \<longrightarrow>
        (\<exists>invited accepted r.
            int_or_0 (form ''invited_count'') = Inr invited
          \<and> int_or_0 (form ''accepted_count'') = Inr accepted
          \<and> db' = db @ [r]
          \<and> invited_count r = max 0 invited \<and> accepted_count r = max 0 accepted))
   \<and> (meetings_update now k form db = (Redirect Meetings_list msg, db') \<longrightarrow>
        (\<exists>invited accepted r.
            int_or_0 (form ''invited_count'') = Inr invited
          \<and> int_or_0 (form ''accepted_count'') = Inr accepted
          \<and> get_or_404 db' k = Inr (Some r)
          \<and> invited_count r = max 0 invited \<and> accepted_count r = max 0 accepted))"
proof (intro conjI impI)
  show "int_or_0 None = Inr 0" and "int_or_0 (Some []) = Inr 0"
    by (simp_all add: int_or_0_def truthy_str_def)
next
  assume "meetings_create now form db = (Redirect Meetings_list msg, db')"
  then obtain d t invited accepted duration club room r where
    i: "int_or_0 (form ''invited_count'') = Inr invited"
    and a: "int_or_0 (form ''accepted_count'') = Inr accepted"
    and f: "flush_row (next_id db)
       \<lparr>m_date = d, m_start_time = t, m_duration_minutes = duration,
        m_description = form ''description'', m_club_id = club, m_room_id = room,
        m_invited_count = max 0 invited, m_accepted_count = max 0 accepted\<rparr> = Inr r"
    and db': "db' = db @ [r]"
    by (rule meetings_create_success)
  from f have "invited_count r = max 0 invited" and "accepted_count r = max 0 accepted"
    by (simp_all add: flush_row_fields)
  with i a db' show "\<exists>invited accepted r.
            int_or_0 (form ''invited_count'') = Inr invited
          \<and> int_or_0 (form ''accepted_count'') = Inr accepted
          \<and> db' = db @ [r]
          \<and> invited_count r = max 0 invited \<and> accepted_count r = max 0 accepted"
    by blast
next
  assume "meetings_update now k form db = (Redirect Meetings_list msg, db')"
  then obtain m d t invited accepted duration club room r where
    q: "get_or_404 db k = Inr (Some m)"
    and i: "int_or_0 (form ''invited_count'') = Inr invited"
    and a: "int_or_0 (form ''accepted_count'') = Inr accepted"
    and f: "flush_row k
       \<lparr>m_date = d, m_start_time = t, m_duration_minutes = duration,
        m_description = form ''description'', m_club_id = club, m_room_id = room,
        m_invited_count = max 0 invited, m_accepted_count = max 0 accepted\<rparr> = Inr r"
    and db': "db' = map (\<lambda>x. if meeting_id x = k then r else x) db"
    by (rule meetings_update_success)
  from f have c: "invited_count r = max 0 invited" "accepted_count r = max 0 accepted"
    and "meeting_id r = k"
    by (simp_all add: flush_row_fields)
  with q db' have "get_or_404 db' k = Inr (Some r)"
    by (simp add: get_or_404_Some find_replaced)
  with i a c show "\<exists>invited accepted r.
            int_or_0 (form ''invited_count'') = Inr invited
          \<and> int_or_0 (form ''accepted_count'') = Inr accepted
          \<and> get_or_404 db' k = Inr (Some r)
          \<and> invited_count r = max 0 invited \<and> accepted_count r = max 0 accepted"
    by blast
qed

lemma form_future_neg_fields:
  "parse_date (form_future_neg ''date'') = Inr (Some (2999, 12, 31))"
  "parse_time (form_future_neg ''start_time'') = Some (18, 30, 0, 0)"
  "int_or_0 (form_future_neg ''invited_count'') = Inr (- 5)"
  "int_or_0 (form_future_neg ''accepted_count'') = Inr 0"
  "int_or_0 (form_future_neg ''duration_minutes'') = Inr 45"
  "int_req (form_future_neg ''club_id'') = Inr 1"
  "int_req (form_future_neg ''room_id'') = Inr 2"
  "form_future_neg ''description'' = Some ''Kick-off''"
  by (simp_all add: form_future_neg_def parse_date_def strptime_eval parse_time_def
      strptime_HM_def directive_H_def directive_M_def int_or_0_def int_req_def
      truthy_str_def py_int_eval)

lemma create_future_neg:
  "meetings_create now0 form_future_neg seed_meetings =
     (Redirect Meetings_list ''Meeting created!'', seed_meetings @ [created_row])"
  by (simp add: meetings_create_def form_future_neg_fields reject_if_past_def combine_def
      now0_def add_commit_def flush_row_def fits_int64_def next_id_def seed_meetings_def
      created_row_def)

lemma update_future_neg:
  "meetings_update now0 2 form_future_neg seed_meetings =
     (Redirect Meetings_list ''Meeting updated!'',
      [hd seed_meetings, created_row\<lparr>meeting_id := 2\<rparr>])"
  by (simp add: meetings_update_def form_future_neg_fields reject_if_past_def combine_def
      now0_def update_commit_def flush_row_def fits_int64_def get_or_404_def seed_meetings_def
      created_row_def)

theorem counts_clamped_witness:
  "int_or_0 (form_future_neg ''invited_count'') = Inr (- 5)
   \<and> meetings_create now0 form_future_neg seed_meetings =
       (Redirect Meetings_list ''Meeting created!'', seed_meetings @ [created_row])
   \<and> invited_count created_row = 0
   \<and> meetings_update now0 2 form_future_neg seed_meetings =
       (Redirect Meetings_list ''Meeting updated!'',
        [hd seed_meetings, created_row\<lparr>meeting_id := 2\<rparr>])
   \<and> get_or_404 [hd seed_meetings, created_row\<lparr>meeting_id := 2\<rparr>] 2 =
       Inr (Some (created_row\<lparr>meeting_id := 2\<rparr>))
   \<and> invited_count (created_row\<lparr>meeting_id := 2\<rparr>) = 0"
proof -
  note inst = counts_clamped [of now0 form_future_neg seed_meetings "''Meeting created!''"
      "seed_meetings @ [created_row]" 2]
  from inst create_future_neg obtain invited r where
    "int_or_0 (form_future_neg ''invited_count'') = Inr invited"
    and "seed_meetings @ [created_row] = seed_meetings @ [r]"
    and "invited_count r = max 0 invited"
    by blast
  then have c: "invited_count created_row = 0"
    by (simp add: form_future_neg_fields)
  note inst' = counts_clamped [of now0 form_future_neg seed_meetings "''Meeting updated!''"
      "[hd seed_meetings, created_row\<lparr>meeting_id := 2\<rparr>]" 2]
  have u: "get_or_404 [hd seed_meetings, created_row\<lparr>meeting_id := 2\<rparr>] 2 =
       Inr (Some (created_row\<lparr>meeting_id := 2\<rparr>))"
    by (simp add: get_or_404_def fits_int64_def seed_meetings_def created_row_def)
  from inst' update_future_neg obtain invited' r' where
    "int_or_0 (form_future_neg ''invited_count'') = Inr invited'"
    and "get_or_404 [hd seed_meetings, created_row\<lparr>meeting_id := 2\<rparr>] 2 = Inr (Some r')"
    and "invited_count r' = max 0 invited'"
    by blast
  with u have u': "invited_count (created_row\<lparr>meeting_id := 2\<rparr>) = 0"
    by (simp add: form_future_neg_fields)
  from form_future_neg_fields(3) create_future_neg c update_future_neg u u' show ?thesis
    by (intro conjI)
qed

subsection \<open>Delete and not-found\<close>

lemma get_or_404_delete_commit:
  "fits_int64 i \<Longrightarrow> get_or_404 (delete_commit db i) i = Inr None"
  by (simp add: get_or_404_def delete_commit_def find_None_iff)

lemma not_found_everywhere:
  assumes "get_or_404 db i = Inr None"
  shows "meetings_delete i db = (Abort404, db)"
    and "meetings_edit i db = Abort404"
    and "meetings_update now i form db = (Abort404, db)"
  using assms by (simp_all add: meetings_delete_def meetings_edit_def meetings_update_def)

text \<open>
  C8. After a successful delete of id \<open>i\<close> the store is the old one without the rows
  of that id; no row of that id is in the list view or in any rendered report; and a
  further delete, edit or update of \<open>i\<close> answers not-found and leaves the store as it
  is.
\<close>

theorem delete_then_not_found:
  assumes "meetings_delete i db = (Redirect Meetings_list msg, db')"
  shows "db' = filter (\<lambda>m. meeting_id m \<noteq> i) db
         \<and> (\<exists>rs. meetings_list db' = Render_list rs \<and> i \<notin> meeting_id ` set rs)
         \<and> (\<forall>args v. report args db' = Render_report v \<longrightarrow>
               i \<notin> meeting_id ` set (rows v))
         \<and> meetings_delete i db' = (Abort404, db')
         \<and> meetings_edit i db' = Abort404
         \<and> (\<forall>now form. meetings_update now i form db' = (Abort404, db'))"
proof -
  from assms have db': "db' = delete_commit db i" and fits: "fits_int64 i"
    by (auto simp: meetings_delete_def get_or_404_def split: option.splits sum.splits if_splits)
  then have gone: "get_or_404 db' i = Inr None"
    by (simp add: get_or_404_delete_commit)
  then have notin: "i \<notin> meeting_id ` set db'"
    by (simp add: get_or_404_None_iff)
  have "set (order_by_desc db') = set db'"
    by (simp add: order_by_desc_def)
  with notin have l: "\<exists>rs. meetings_list db' = Render_list rs \<and> i \<notin> meeting_id ` set rs"
    by (simp add: meetings_list_def)
  have r: "i \<notin> meeting_id ` set (rows v)" if "report args db' = Render_report v" for args v
  proof -
    from that obtain date_from date_to where
      "rows v = order_by_asc
                  (filter (report_matches (requested_id (args ''club_id''))
                             (requested_id (args ''room_id'')) date_from date_to) db')"
      by (rule report_Render)
    then have "set (rows v) \<subseteq> set db'"
      by (auto simp: order_by_asc_def)
    with notin show ?thesis
      by blast
  qed
  from db' have "db' = filter (\<lambda>m. meeting_id m \<noteq> i) db"
    by (simp add: delete_commit_def)
  with l r not_found_everywhere [OF gone] show ?thesis
    by blast
qed

theorem delete_then_not_found_witness:
  "meetings_delete 1 seed_meetings = (Redirect Meetings_list ''Meeting deleted!'', tl seed_meetings)
   \<and> map meeting_id (tl seed_meetings) = [2]
   \<and> meetings_list (tl seed_meetings) = Render_list (tl seed_meetings)
   \<and> meetings_delete 1 (tl seed_meetings) = (Abort404, tl seed_meetings)
   \<and> meetings_edit 1 (tl seed_meetings) = Abort404
   \<and> meetings_update now0 1 form_future_neg (tl seed_meetings) = (Abort404, tl seed_meetings)"
proof -
  have d: "meetings_delete 1 seed_meetings =
      (Redirect Meetings_list ''Meeting deleted!'', tl seed_meetings)"
    by (simp add: meetings_delete_def get_or_404_def fits_int64_def delete_commit_def
        seed_meetings_def)
  note inst = delete_then_not_found [OF d]
  have "map meeting_id (tl seed_meetings) = [2]"
    by (simp add: seed_meetings_def)
  moreover have "meetings_list (tl seed_meetings) = Render_list (tl seed_meetings)"
    by (simp add: meetings_list_def order_by_desc_def seed_meetings_def)
  moreover from inst have "meetings_delete 1 (tl seed_meetings) = (Abort404, tl seed_meetings)"
    and "meetings_edit 1 (tl seed_meetings) = Abort404"
    and "meetings_update now0 1 form_future_neg (tl seed_meetings) = (Abort404, tl seed_meetings)"
    by blast+
  ultimately show ?thesis
    using d by (intro conjI)
qed

subsection \<open>Absent date or start time\<close>

lemma parse_date_falsy: "\<not> truthy_str s \<Longrightarrow> parse_date s = Inr None"
  by (auto simp: truthy_str_def parse_date_def split: option.splits)

lemma parse_time_falsy: "\<not> truthy_str s \<Longrightarrow> parse_time s = None"
  by (auto simp: truthy_str_def parse_time_def split: option.splits)

lemma reject_if_past_None:
  "d = None \<or> t = None \<Longrightarrow> \<not> reject_if_past now d t"
  by (auto simp: reject_if_past_def split: option.splits)

lemma flush_row_None:
  assumes "m_date m = None \<or> m_start_time m = None"
  shows "flush_row i m = Inl OverflowError \<or> flush_row i m = Inl IntegrityError"
  using assms by (auto simp: flush_row_def split: option.splits)

text \<open>
  C10. When the date or the start_time field is absent or empty and the other fields
  parse, the parsed value is absent, the past-check does not reject, and the handler
  hands the object with the absent field to the commit. The commit refuses it (the
  columns are declared non-nullable), and that error is the response of create, and of
  update of an existing meeting, with nothing stored.
\<close>

theorem empty_date_or_time_fails_at_commit:
  assumes "\<not> truthy_str (form ''date'') \<or> \<not> truthy_str (form ''start_time'')"
    and "parse_date (form ''date'') = Inr d"
    and "t = parse_time (form ''start_time'')"
    and "int_or_0 (form ''invited_count'') = Inr invited"
    and "int_or_0 (form ''accepted_count'') = Inr accepted"
    and "int_or_0 (form ''duration_minutes'') = Inr duration"
    and "int_req (form ''club_id'') = Inr club"
    and "int_req (form ''room_id'') = Inr room"
    and "obj = \<lparr>m_date = d, m_start_time = t, m_duration_minutes = duration,
               m_description = form ''description'', m_club_id = club, m_room_id = room,
               m_invited_count = max 0 invited, m_accepted_count = max 0 accepted\<rparr>"
  shows "(d = None \<or> t = None)
         \<and> \<not> reject_if_past now d t
         \<and> (\<exists>e. (e = IntegrityError \<or> e = OverflowError)
                \<and> add_commit db obj = Inl e
                \<and> meetings_create now form db = (Server_error e, db))
         \<and> (\<forall>m. get_or_404 db k = Inr (Some m) \<longrightarrow>
               (\<exists>e. (e = IntegrityError \<or> e = OverflowError)
                    \<and> update_commit db k obj = Inl e
                    \<and> meetings_update now k form db = (Server_error e, db)))"
proof -
  from assms(1,2,3) have n: "d = None \<or> t = None"
    by (auto dest: parse_date_falsy parse_time_falsy)
  then have p: "\<not> reject_if_past now d t"
    by (rule reject_if_past_None)
  from n assms(9) have "m_date obj = None \<or> m_start_time obj = None"
    by simp
  then have f: "\<exists>e. (e = IntegrityError \<or> e = OverflowError) \<and> flush_row i obj = Inl e" for i
    using flush_row_None [of obj i] by blast
  from f [of "next_id db"] obtain e where
    ke: "e = IntegrityError \<or> e = OverflowError" and e: "add_commit db obj = Inl e"
    by (auto simp: add_commit_def)
  from assms(2-9) p e have c: "meetings_create now form db = (Server_error e, db)"
    by (simp add: meetings_create_def)
  from f [of k] obtain e' where
    ke': "e' = IntegrityError \<or> e' = OverflowError" and e': "update_commit db k obj = Inl e'"
    by (auto simp: update_commit_def)
  from assms(2-9) p e' have u: "meetings_update now k form db = (Server_error e', db)"
    if "get_or_404 db k = Inr (Some m)" for m
    using that by (simp add: meetings_update_def)
  from n p ke e c ke' e' u show ?thesis
    by blast
qed

lemma form_no_date_fields:
  "form_no_date ''date'' = Some []"
  "parse_date (form_no_date ''date'') = Inr None"
  "parse_time (form_no_date ''start_time'') = Some (18, 30, 0, 0)"
  "int_or_0 (form_no_date ''invited_count'') = Inr 8"
  "int_or_0 (form_no_date ''accepted_count'') = Inr 3"
  "int_or_0 (form_no_date ''duration_minutes'') = Inr 45"
  "int_req (form_no_date ''club_id'') = Inr 1"
  "int_req (form_no_date ''room_id'') = Inr 2"
  "form_no_date ''description'' = None"
  by (simp_all add: form_no_date_def parse_date_def parse_time_def
      strptime_HM_def directive_H_def directive_M_def num12_def int_or_0_def int_req_def
      truthy_str_def py_int_eval)

theorem empty_date_or_time_fails_at_commit_witness:
  "form_no_date ''date'' = Some []
   \<and> parse_date (form_no_date ''date'') = Inr None
   \<and> add_commit seed_meetings
         \<lparr>m_date = None, m_start_time = Some (18, 30, 0, 0), m_duration_minutes = 45,
          m_description = None, m_club_id = 1, m_room_id = 2,
          m_invited_count = 8, m_accepted_count = 3\<rparr> = Inl IntegrityError
   \<and> meetings_create now0 form_no_date seed_meetings =
       (Server_error IntegrityError, seed_meetings)
   \<and> meetings_update now0 1 form_no_date seed_meetings =
       (Server_error IntegrityError, seed_meetings)"
proof -
  let ?obj = "\<lparr>m_date = None, m_start_time = Some (18, 30, 0, 0), m_duration_minutes = 45,
          m_description = None, m_club_id = 1, m_room_id = 2,
          m_invited_count = 8, m_accepted_count = 3\<rparr>"
  have e: "\<not> truthy_str (form_no_date ''date'') \<or> \<not> truthy_str (form_no_date ''start_time'')"
    by (simp add: truthy_str_def form_no_date_fields)
  have o: "?obj = \<lparr>m_date = None, m_start_time = Some (18, 30, 0, 0), m_duration_minutes = 45,
          m_description = form_no_date ''description'', m_club_id = 1, m_room_id = 2,
          m_invited_count = max 0 8, m_accepted_count = max 0 3\<rparr>"
    by (simp add: form_no_date_fields)
  note inst = empty_date_or_time_fails_at_commit
    [OF e form_no_date_fields(2) form_no_date_fields(3) [symmetric] form_no_date_fields(4-8) o,
      of now0 seed_meetings 1]
  have a: "add_commit seed_meetings ?obj = Inl IntegrityError"
    by (simp add: add_commit_def flush_row_def fits_int64_def)
  have u: "update_commit seed_meetings 1 ?obj = Inl IntegrityError"
    by (simp add: update_commit_def flush_row_def fits_int64_def)
  from inst a have c: "meetings_create now0 form_no_date seed_meetings =
       (Server_error IntegrityError, seed_meetings)"
    by auto
  from inst u get_or_404_seed_1 have "meetings_update now0 1 form_no_date seed_meetings =
       (Server_error IntegrityError, seed_meetings)"
    by auto
  with form_no_date_fields(1,2) a c show ?thesis
    by (intro conjI)
qed

subsection \<open>Malformed fields\<close>

text \<open>
  C7, as stated, fails on the report route: a club_id that is not a number is read as
  absent and the report is rendered, here over the rows of init-db with the averages
  150/2, 55/2, 34/2 and (12/20 + 22/35)/2 left unevaluated.
\<close>

theorem report_non_numeric_club_id_renders:
  "args_club_abc ''club_id'' = Some ''abc''
   \<and> py_int ''abc'' = Inl ValueError
   \<and> non_numeric (args_club_abc ''club_id'')
   \<and> report args_club_abc seed_meetings =
       Render_report
         \<lparr>rows = seed_meetings, filter_club_id = None, filter_room_id = None,
          filter_date_from = None, filter_date_to = None,
          stats =
            \<lparr>avg_duration = PyFloat (Float_round (Int_div 150 2) 2),
             avg_invited = PyFloat (Float_round (Int_div 55 2) 2),
             avg_accepted = PyFloat (Float_round (Int_div 34 2) 2),
             avg_attendance_rate =
               PyFloat (Float_round
                 (Float_div (Float_sum [Int_div 12 20, Int_div 22 35]) 2) 3)\<rparr>\<rparr>
   \<and> \<not> is_server_error (report args_club_abc seed_meetings)"
proof -
  have a: "args_club_abc ''club_id'' = Some ''abc''"
    by (simp add: args_club_abc_def)
  have p: "py_int ''abc'' = Inl ValueError"
    by (simp add: py_int_eval)
  from a p have n: "non_numeric (args_club_abc ''club_id'')"
    by (simp add: non_numeric_def)
  have f: "parse_date (args_club_abc ''date_from'') = Inr None"
    "parse_date (args_club_abc ''date_to'') = Inr None"
    "requested_id (args_club_abc ''club_id'') = None"
    "requested_id (args_club_abc ''room_id'') = None"
    "args_get_int (args_club_abc ''club_id'') = None"
    "args_get_int (args_club_abc ''room_id'') = None"
    "args_club_abc ''date_from'' = None" "args_club_abc ''date_to'' = None"
    by (simp_all add: args_club_abc_def parse_date_None requested_id_def args_get_int_def p)
  have b: "bindable (requested_id (args_club_abc ''club_id''))"
    "bindable (requested_id (args_club_abc ''room_id''))"
    by (simp_all add: f bindable_simps)
  have m: "filter (report_matches None None None None) seed_meetings = seed_meetings"
    by (simp add: report_matches_def id_filter_def in_date_range_def)
  have o: "order_by_asc seed_meetings = seed_meetings"
    by (simp add: order_by_asc_def sort_cols_def seed_meetings_def)
  have s: "stats_of seed_meetings =
            \<lparr>avg_duration = PyFloat (Float_round (Int_div 150 2) 2),
             avg_invited = PyFloat (Float_round (Int_div 55 2) 2),
             avg_accepted = PyFloat (Float_round (Int_div 34 2) 2),
             avg_attendance_rate =
               PyFloat (Float_round
                 (Float_div (Float_sum [Int_div 12 20, Int_div 22 35]) 2) 3)\<rparr>"
    by (simp add: stats_of_def col_mean_def mean_def attendance_rate_def py_round_def
        seed_meetings_def)
  from report_rendered [OF f(1,2) b, of seed_meetings]
  have r: "report args_club_abc seed_meetings =
       Render_report
         \<lparr>rows = seed_meetings, filter_club_id = None, filter_room_id = None,
          filter_date_from = None, filter_date_to = None,
          stats =
            \<lparr>avg_duration = PyFloat (Float_round (Int_div 150 2) 2),
             avg_invited = PyFloat (Float_round (Int_div 55 2) 2),
             avg_accepted = PyFloat (Float_round (Int_div 34 2) 2),
             avg_attendance_rate =
               PyFloat (Float_round
                 (Float_div (Float_sum [Int_div 12 20, Int_div 22 35]) 2) 3)\<rparr>\<rparr>"
    by (simp add: f m o s)
  then have "\<not> is_server_error (report args_club_abc seed_meetings)"
    by (simp add: is_server_error_def)
  with a p n r show ?thesis
    by (intro conjI)
qed

lemma int_or_0_non_numeric: "non_numeric s \<Longrightarrow> int_or_0 s = Inl ValueError"
  by (auto simp: non_numeric_def int_or_0_def truthy_str_def split: option.splits sum.splits
      dest: py_int_error)

lemma int_req_non_numeric: "non_numeric s \<Longrightarrow> int_req s = Inl ValueError"
  by (auto simp: non_numeric_def int_req_def split: option.splits sum.splits
      dest: py_int_error)

lemma requested_id_non_numeric: "non_numeric s \<Longrightarrow> requested_id s = None"
  by (auto simp: non_numeric_def requested_id_def split: option.splits sum.splits)

lemma args_get_int_non_numeric: "non_numeric s \<Longrightarrow> args_get_int s = None"
  by (auto simp: non_numeric_def args_get_int_def split: option.splits sum.splits)

lemma create_bad_count_or_id:
  assumes "parse_date (form ''date'') = Inr d"
    and "\<not> reject_if_past now d (parse_time (form ''start_time''))"
    and "bad_count_or_id form"
  shows "is_server_error (fst (meetings_create now form db))
         \<and> snd (meetings_create now form db) = db"
proof -
  from assms(3) have "int_or_0 (form ''invited_count'') = Inl ValueError
      \<or> int_or_0 (form ''accepted_count'') = Inl ValueError
      \<or> int_req (form ''club_id'') = Inl ValueError
      \<or> int_req (form ''room_id'') = Inl ValueError"
    unfolding bad_count_or_id_def
    by (blast dest: int_or_0_non_numeric int_req_non_numeric)
  with assms(1,2) show ?thesis
    by (auto simp: meetings_create_def is_server_error_def split: sum.splits)
qed

lemma update_bad_count_or_id:
  assumes "get_or_404 db k = Inr (Some m)"
    and "parse_date (form ''date'') = Inr d"
    and "\<not> reject_if_past now d (parse_time (form ''start_time''))"
    and "bad_count_or_id form"
  shows "is_server_error (fst (meetings_update now k form db))
         \<and> snd (meetings_update now k form db) = db"
proof -
  from assms(4) have "int_or_0 (form ''invited_count'') = Inl ValueError
      \<or> int_or_0 (form ''accepted_count'') = Inl ValueError
      \<or> int_req (form ''club_id'') = Inl ValueError
      \<or> int_req (form ''room_id'') = Inl ValueError"
    unfolding bad_count_or_id_def
    by (blast dest: int_or_0_non_numeric int_req_non_numeric)
  with assms(1,2,3) show ?thesis
    by (auto simp: meetings_update_def is_server_error_def split: sum.splits)
qed

lemma report_malformed_date:
  assumes "malformed_date (args ''date_from'') \<or> malformed_date (args ''date_to'')"
  shows "report args db = Server_error ValueError"
proof (cases "malformed_date (args ''date_from'')")
  case True
  then show ?thesis
    by (simp add: report_eq parse_date_malformed)
next
  case False
  with assms have "malformed_date (args ''date_to'')"
    by simp
  moreover from False obtain d where "parse_date (args ''date_from'') = Inr d"
    using parse_date_well_formed by blast
  ultimately show ?thesis
    by (simp add: report_eq parse_date_malformed)
qed

lemma report_ValueError_only_from_dates:
  assumes "report args db = Server_error ValueError"
  shows "malformed_date (args ''date_from'') \<or> malformed_date (args ''date_to'')"
proof (rule ccontr)
  assume n: "\<not> (malformed_date (args ''date_from'') \<or> malformed_date (args ''date_to''))"
  show False
  proof (cases "bindable (requested_id (args ''club_id''))
      \<and> bindable (requested_id (args ''room_id''))")
    case True
    with n have "\<exists>v. report args db = Render_report v"
      by (simp add: report_renders_iff)
    with assms show False
      by auto
  next
    case False
    with n have "report args db = Server_error OverflowError"
      by (simp add: report_overflow)
    with assms show False
      by simp
  qed
qed

lemma report_non_numeric_club_id:
  assumes "\<not> malformed_date (args ''date_from'')" and "\<not> malformed_date (args ''date_to'')"
    and "non_numeric (args ''club_id'')" and "bindable (requested_id (args ''room_id''))"
  shows "\<exists>v. report args db = Render_report v \<and> filter_club_id v = None"
proof -
  from assms(1,2) obtain d u where p: "parse_date (args ''date_from'') = Inr d"
    "parse_date (args ''date_to'') = Inr u"
    using parse_date_well_formed by blast
  from assms(3) have c: "requested_id (args ''club_id'') = None"
    "args_get_int (args ''club_id'') = None"
    by (simp_all add: requested_id_non_numeric args_get_int_non_numeric)
  with p assms(4) show ?thesis
    by (simp add: report_rendered bindable_simps)
qed

lemma report_non_numeric_room_id:
  assumes "\<not> malformed_date (args ''date_from'')" and "\<not> malformed_date (args ''date_to'')"
    and "non_numeric (args ''room_id'')" and "bindable (requested_id (args ''club_id''))"
  shows "\<exists>v. report args db = Render_report v \<and> filter_room_id v = None"
proof -
  from assms(1,2) obtain d u where p: "parse_date (args ''date_from'') = Inr d"
    "parse_date (args ''date_to'') = Inr u"
    using parse_date_well_formed by blast
  from assms(3) have c: "requested_id (args ''room_id'') = None"
    "args_get_int (args ''room_id'') = None"
    by (simp_all add: requested_id_non_numeric args_get_int_non_numeric)
  with p assms(4) show ?thesis
    by (simp add: report_rendered bindable_simps)
qed

text \<open>
  C7, amended. A date field that is not empty and not a date raises \<open>ValueError\<close> on
  create and on update of an existing meeting. When the date parses and the past-check
  does not reject, a non-numeric invited_count, accepted_count, club_id or room_id makes
  create, and update of an existing meeting, end in a server error. In all these cases
  nothing is stored. On the report route a malformed date_from or date_to raises
  \<open>ValueError\<close>, and that is the only source of a \<open>ValueError\<close> there: with both
  dates well-formed, a non-numeric club_id or room_id is read as absent and the report
  is rendered, provided the other id can be bound.
\<close>

theorem parse_failures:
  "(malformed_date (form ''date'') \<longrightarrow>
      meetings_create now form db = (Server_error ValueError, db)
      \<and> (\<forall>m. get_or_404 db k = Inr (Some m) \<longrightarrow>
            meetings_update now k form db = (Server_error ValueError, db)))
   \<and> (\<forall>d. parse_date (form ''date'') = Inr d
          \<and> \<not> reject_if_past now d (parse_time (form ''start_time''))
          \<and> bad_count_or_id form \<longrightarrow>
          is_server_error (fst (meetings_create now form db))
          \<and> snd (meetings_create now form db) = db
          \<and> (\<forall>m. get_or_404 db k = Inr (Some m) \<longrightarrow>
                is_server_error (fst (meetings_update now k form db))
                \<and> snd (meetings_update now k form db) = db))
   \<and> (malformed_date (args ''date_from'') \<or> malformed_date (args ''date_to'') \<longrightarrow>
        report args db = Server_error ValueError)
   \<and> (report args db = Server_error ValueError \<longrightarrow>
        malformed_date (args ''date_from'') \<or> malformed_date (args ''date_to''))
   \<and> (\<not> malformed_date (args ''date_from'') \<and> \<not> malformed_date (args ''date_to'')
      \<and> non_numeric (args ''club_id'') \<and> bindable (requested_id (args ''room_id'')) \<longrightarrow>
        (\<exists>v. report args db = Render_report v \<and> filter_club_id v = None))
   \<and> (\<not> malformed_date (args ''date_from'') \<and> \<not> malformed_date (args ''date_to'')
      \<and> non_numeric (args ''room_id'') \<and> bindable (requested_id (args ''club_id'')) \<longrightarrow>
        (\<exists>v. report args db = Render_report v \<and> filter_room_id v = None))"
proof (intro conjI impI allI; (elim conjE)?)
  assume "malformed_date (form ''date'')"
  then have p: "parse_date (form ''date'') = Inl ValueError"
    by (rule parse_date_malformed)
  then show "meetings_create now form db = (Server_error ValueError, db)"
    by (simp add: meetings_create_def)
  fix m
  assume "get_or_404 db k = Inr (Some m)"
  with p show "meetings_update now k form db = (Server_error ValueError, db)"
    by (simp add: meetings_update_def)
next
  fix d
  assume a: "parse_date (form ''date'') = Inr d"
    "\<not> reject_if_past now d (parse_time (form ''start_time''))"
    "bad_count_or_id form"
  from create_bad_count_or_id [OF a]
  show "is_server_error (fst (meetings_create now form db))"
    and "snd (meetings_create now form db) = db"
    by simp_all
  fix m
  assume q: "get_or_404 db k = Inr (Some m)"
  from update_bad_count_or_id [OF q a]
  show "is_server_error (fst (meetings_update now k form db))"
    and "snd (meetings_update now k form db) = db"
    by simp_all
next
  assume "malformed_date (args ''date_from'') \<or> malformed_date (args ''date_to'')"
  then show "report args db = Server_error ValueError"
    by (rule report_malformed_date)
next
  assume "report args db = Server_error ValueError"
  then show "malformed_date (args ''date_from'') \<or> malformed_date (args ''date_to'')"
    by (rule report_ValueError_only_from_dates)
next
  assume "\<not> malformed_date (args ''date_from'')" "\<not> malformed_date (args ''date_to'')"
    "non_numeric (args ''club_id'')" "bindable (requested_id (args ''room_id''))"
  then show "\<exists>v. report args db = Render_report v \<and> filter_club_id v = None"
    by (rule report_non_numeric_club_id)
next
  assume "\<not> malformed_date (args ''date_from'')" "\<not> malformed_date (args ''date_to'')"
    "non_numeric (args ''room_id'')" "bindable (requested_id (args ''club_id''))"
  then show "\<exists>v. report args db = Render_report v \<and> filter_room_id v = None"
    by (rule report_non_numeric_room_id)
qed

lemma form_bad_fields:
  "malformed_date (form_bad_date ''date'')"
  "parse_date (form_bad_count ''date'') = Inr (Some (2999, 12, 31))"
  "parse_time (form_bad_count ''start_time'') = Some (18, 30, 0, 0)"
  "non_numeric (form_bad_count ''invited_count'')"
  "parse_date (form_bad_room ''date'') = Inr (Some (2999, 12, 31))"
  "parse_time (form_bad_room ''start_time'') = Some (18, 30, 0, 0)"
  "non_numeric (form_bad_room ''room_id'')"
  "malformed_date (args_bad_date_to ''date_to'')"
  "\<not> malformed_date (args_club_abc ''date_from'')"
  "\<not> malformed_date (args_club_abc ''date_to'')"
  "non_numeric (args_club_abc ''club_id'')"
  "bindable (requested_id (args_club_abc ''room_id''))"
  "parse_date (form_sep_count ''date'') = Inr (Some (2999, 12, 31))"
  "parse_time (form_sep_count ''start_time'') = Some (18, 30, 0, 0)"
  "non_numeric (form_sep_count ''invited_count'')"
  by (simp_all add: form_bad_date_def form_bad_count_def form_bad_room_def form_sep_count_def
      args_bad_date_to_def args_club_abc_def form_future_neg_def malformed_date_def
      non_numeric_def parse_date_def parse_time_def strptime_eval strptime_HM_def
      directive_H_def directive_M_def py_int_eval requested_id_def bindable_def)

theorem parse_failures_witness:
  "malformed_date (form_bad_date ''date'')
   \<and> meetings_create now0 form_bad_date seed_meetings = (Server_error ValueError, seed_meetings)
   \<and> meetings_update now0 1 form_bad_date seed_meetings
       = (Server_error ValueError, seed_meetings)
   \<and> non_numeric (form_bad_count ''invited_count'')
   \<and> is_server_error (fst (meetings_create now0 form_bad_count seed_meetings))
   \<and> snd (meetings_create now0 form_bad_count seed_meetings) = seed_meetings
   \<and> non_numeric (form_sep_count ''invited_count'')
   \<and> is_server_error (fst (meetings_create now0 form_sep_count seed_meetings))
   \<and> snd (meetings_create now0 form_sep_count seed_meetings) = seed_meetings
   \<and> non_numeric (form_bad_room ''room_id'')
   \<and> is_server_error (fst (meetings_update now0 1 form_bad_room seed_meetings))
   \<and> snd (meetings_update now0 1 form_bad_room seed_meetings) = seed_meetings
   \<and> malformed_date (args_bad_date_to ''date_to'')
   \<and> report args_bad_date_to seed_meetings = Server_error ValueError
   \<and> non_numeric (args_club_abc ''club_id'')
   \<and> (\<exists>v. report args_club_abc seed_meetings = Render_report v
          \<and> filter_club_id v = None)"
proof -
  have future: "\<not> reject_if_past now0 (Some (2999, 12, 31)) (Some (18, 30, 0, 0))"
    by (simp add: reject_if_past_def combine_def now0_def)
  note date_inst = parse_failures [of form_bad_date now0 seed_meetings 1 no_args]
  from date_inst form_bad_fields(1) get_or_404_seed_1
  have d: "meetings_create now0 form_bad_date seed_meetings
             = (Server_error ValueError, seed_meetings)"
    "meetings_update now0 1 form_bad_date seed_meetings
       = (Server_error ValueError, seed_meetings)"
    by blast+
  note count_inst =
    parse_failures [of form_bad_count now0 seed_meetings 1 args_bad_date_to]
  have "bad_count_or_id form_bad_count"
    by (simp add: bad_count_or_id_def form_bad_fields)
  with count_inst form_bad_fields(2,3) future
  have c: "is_server_error (fst (meetings_create now0 form_bad_count seed_meetings))"
    "snd (meetings_create now0 form_bad_count seed_meetings) = seed_meetings"
    by simp_all
  from count_inst form_bad_fields(8)
  have r: "report args_bad_date_to seed_meetings = Server_error ValueError"
    by blast
  note sep_inst =
    parse_failures [of form_sep_count now0 seed_meetings 1 args_bad_date_to]
  have "bad_count_or_id form_sep_count"
    by (simp add: bad_count_or_id_def form_bad_fields)
  with sep_inst form_bad_fields(13,14) future
  have s: "is_server_error (fst (meetings_create now0 form_sep_count seed_meetings))"
    "snd (meetings_create now0 form_sep_count seed_meetings) = seed_meetings"
    by simp_all
  note room_inst = parse_failures [of form_bad_room now0 seed_meetings 1 args_club_abc]
  have "bad_count_or_id form_bad_room"
    by (simp add: bad_count_or_id_def form_bad_fields)
  with room_inst form_bad_fields(5,6) future get_or_404_seed_1
  have u: "is_server_error (fst (meetings_update now0 1 form_bad_room seed_meetings))"
    "snd (meetings_update now0 1 form_bad_room seed_meetings) = seed_meetings"
    by simp_all
  from room_inst form_bad_fields(9,10,11,12)
  have a: "\<exists>v. report args_club_abc seed_meetings = Render_report v
          \<and> filter_club_id v = None"
    by blast
  from form_bad_fields(1) d form_bad_fields(4) c form_bad_fields(15) s form_bad_fields(7) u
    form_bad_fields(8) r form_bad_fields(11) a
  show ?thesis
    by (intro conjI)
qed

text \<open>
  A no-break space before the digits is skipped by \<open>int\<close>: the count is numeric and
  the meeting is stored with it.
\<close>

lemma create_nbsp_count:
  "\<not> non_numeric (form_nbsp_count ''invited_count'')"
  "meetings_create now0 form_nbsp_count seed_meetings =
     (Redirect Meetings_list ''Meeting created!'',
      seed_meetings @ [created_row\<lparr>invited_count := 5\<rparr>])"
proof -
  have f: "parse_date (form_nbsp_count ''date'') = Inr (Some (2999, 12, 31))"
    "parse_time (form_nbsp_count ''start_time'') = Some (18, 30, 0, 0)"
    "int_or_0 (form_nbsp_count ''invited_count'') = Inr 5"
    "int_or_0 (form_nbsp_count ''accepted_count'') = Inr 0"
    "int_or_0 (form_nbsp_count ''duration_minutes'') = Inr 45"
    "int_req (form_nbsp_count ''club_id'') = Inr 1"
    "int_req (form_nbsp_count ''room_id'') = Inr 2"
    "form_nbsp_count ''description'' = Some ''Kick-off''"
    by (simp_all add: form_nbsp_count_def form_future_neg_def parse_date_def strptime_eval
        parse_time_def strptime_HM_def directive_H_def directive_M_def int_or_0_def
        int_req_def truthy_str_def py_int_eval)
  show "\<not> non_numeric (form_nbsp_count ''invited_count'')"
    by (simp add: non_numeric_def form_nbsp_count_def py_int_eval)
  from f show "meetings_create now0 form_nbsp_count seed_meetings =
     (Redirect Meetings_list ''Meeting created!'',
      seed_meetings @ [created_row\<lparr>invited_count := 5\<rparr>])"
    by (simp add: meetings_create_def reject_if_past_def combine_def now0_def add_commit_def
        flush_row_def fits_int64_def next_id_def seed_meetings_def created_row_def)
qed

subsection \<open>The handlers keep the counts non-negative\<close>

lemma flush_row_counts_nonneg:
  assumes "flush_row i m = Inr r" and "0 \<le> m_invited_count m" and "0 \<le> m_accepted_count m"
  shows "0 \<le> invited_count r \<and> 0 \<le> accepted_count r"
  using assms by (simp add: flush_row_fields)

lemma create_keeps_counts_nonneg:
  assumes "counts_nonneg db"
  shows "counts_nonneg (snd (meetings_create now form db))"
  using assms unfolding meetings_create_def add_commit_def Let_def
  by (auto simp: counts_nonneg_def split: sum.splits dest!: flush_row_counts_nonneg)

lemma update_keeps_counts_nonneg:
  assumes "counts_nonneg db"
  shows "counts_nonneg (snd (meetings_update now k form db))"
  using assms unfolding meetings_update_def update_commit_def Let_def
  by (auto simp: counts_nonneg_def list_all_iff split: sum.splits option.splits
      dest!: flush_row_counts_nonneg)

lemma delete_keeps_counts_nonneg:
  assumes "counts_nonneg db"
  shows "counts_nonneg (snd (meetings_delete i db))"
  using assms
  by (auto simp: meetings_delete_def delete_commit_def counts_nonneg_def list_all_iff
      split: option.splits sum.splits)

lemma seed_counts_nonneg: "counts_nonneg seed_meetings" "counts_nonneg []"
  by (simp_all add: counts_nonneg_def seed_meetings_def)

end
